theory Spec2Isabelle
  imports Complex_Main "HOL-Library.Sublist"
begin

section \<open>Python values used by the assistant\<close>

text \<open>
  Exceptions are values. Every exception that the modelled code can meet is a subclass of
  Python's \<open>Exception\<close>, so each \<open>except Exception\<close> of the source catches every
  constructor below. \<open>External\<close> carries the message of an exception raised by a
  collaborator (the monitoring client, the language model, the token counter).
\<close>

datatype exn =
    ZeroDivisionError
  | TypeError string
  | KeyError string
  | ValueError string
  | IndexError string
  | AttributeError string
  | External string

text \<open>A text between single quotes, as Python's messages show names.\<close>

definition quoted :: "string \<Rightarrow> string" where
  "quoted s = [CHR 0x27] @ s @ [CHR 0x27]"

text \<open>\<open>str(e)\<close>, as the f-strings of the error texts use it.\<close>

fun str_exn :: "exn \<Rightarrow> string" where
  "str_exn ZeroDivisionError = ''integer division or modulo by zero''"
| "str_exn (TypeError m) = m"
| "str_exn (KeyError k) = quoted k"
| "str_exn (ValueError m) = m"
| "str_exn (IndexError m) = m"
| "str_exn (AttributeError m) = m"
| "str_exn (External m) = m"

text \<open>\<open>sep.join(parts)\<close>.\<close>

fun join :: "string \<Rightarrow> string list \<Rightarrow> string" where
  "join sep [] = []"
| "join sep [x] = x"
| "join sep (x # y # ys) = x @ sep @ join sep (y # ys)"

text \<open>\<open>str(i)\<close> of an integer, as an f-string renders it.\<close>

definition digit_char :: "nat \<Rightarrow> char" where
  "digit_char d = char_of (48 + d)"

fun str_nat :: "nat \<Rightarrow> string" where
  "str_nat n = (if n < 10 then [digit_char n] else str_nat (n div 10) @ [digit_char (n mod 10)])"

declare str_nat.simps [simp del]

definition str_int :: "int \<Rightarrow> string" where
  "str_int i = (if i < 0 then CHR ''-'' # str_nat (nat (- i)) else str_nat (nat i))"

text \<open>
  \<open>xs[start:stop]\<close> on a list: a negative bound counts from the end, and both bounds are
  clamped into \<open>0..len(xs)\<close>; a slice never raises.
\<close>

definition py_slice :: "'a list \<Rightarrow> int \<Rightarrow> int \<Rightarrow> 'a list" where
  "py_slice xs start stop =
     (let n = int (length xs);
          s = (if start < 0 then max (start + n) 0 else min start n);
          e = (if stop < 0 then max (stop + n) 0 else min stop n)
      in take (nat (e - s)) (drop (nat s) xs))"

section \<open>ZabbixDataHandler.paginate_response\<close>

text \<open>The dictionary that \<open>paginate_response\<close> returns, one field for each key.\<close>

record page_result =
  content :: string
  total_items :: int
  total_pages :: int
  current_page :: int
  page_size :: int

text \<open>
  The local \<open>paginated_data\<close>: the slice \<open>data[start_index:end_index]\<close> with
  \<open>start_index = (page - 1) * page_size\<close> and \<open>end_index = start_index + page_size\<close>.
\<close>

definition paginated_data :: "'a list \<Rightarrow> int \<Rightarrow> int \<Rightarrow> 'a list" where
  "paginated_data data page psize =
     (let start_index = (page - 1) * psize;
          end_index = start_index + psize
      in py_slice data start_index end_index)"

text \<open>
  \<open>paginate_response(data, page, page_size, formatter)\<close>. The floor division
  \<open>// page_size\<close> raises \<open>ZeroDivisionError\<close> when \<open>page_size\<close> is 0, before anything
  else is computed; HOL's \<open>div\<close> on \<open>int\<close> rounds down as Python's \<open>//\<close> does. A
  formatter may raise (the formatters of the source index the records by key); the default
  formatter joins \<open>str(item)\<close> with newlines, and \<open>str_item\<close> stands for \<open>str\<close> on the
  record type.
\<close>

definition paginate_response ::
  "('a \<Rightarrow> string) \<Rightarrow> 'a list \<Rightarrow> int \<Rightarrow> int \<Rightarrow> ('a list \<Rightarrow> exn + string) option
     \<Rightarrow> exn + page_result" where
  "paginate_response str_item data page psize formatter =
     (let n_items = int (length data) in
      if psize = 0 then Inl ZeroDivisionError
      else
        let n_pages = (n_items + psize - 1) div psize;
            formatted_content =
              (case formatter of
                 Some f \<Rightarrow> f (paginated_data data page psize)
               | None \<Rightarrow> Inr (join [CHR 0x0A] (map str_item (paginated_data data page psize))))
        in case formatted_content of
             Inl e \<Rightarrow> Inl e
           | Inr text \<Rightarrow>
               Inr \<lparr>content = text, total_items = n_items, total_pages = n_pages,
                    current_page = page, page_size = psize\<rparr>)"

text \<open>
  \<open>ZabbixToolFunctions._paginate_and_format\<close>: paginate with the capability's formatter,
  then append the footer.
\<close>

definition paginate_and_format ::
  "('a \<Rightarrow> string) \<Rightarrow> 'a list \<Rightarrow> int \<Rightarrow> int \<Rightarrow> ('a list \<Rightarrow> exn + string) \<Rightarrow> exn + string" where
  "paginate_and_format str_item data page psize formatter =
     (case paginate_response str_item data page psize (Some formatter) of
        Inl e \<Rightarrow> Inl e
      | Inr result \<Rightarrow>
          Inr (content result @ [CHR 0x0A, CHR 0x0A] @ ''Page '' @ str_int (current_page result)
               @ '' of '' @ str_int (total_pages result)
               @ '' (Total Items: '' @ str_int (total_items result) @ '')''))"

section \<open>Strings\<close>

text \<open>
  A Python \<open>str\<close> is modelled as a \<open>string\<close> whose characters are the code points
  0 to 255. \<open>str.lower()\<close> maps \<open>A\<close> to \<open>Z\<close> and the upper-case letters of the
  Latin-1 block (192 to 222, the multiplication sign 215 apart) to the letter 32 places
  further on, and leaves every other code point of that range as it is.
\<close>

definition lower_char :: "char \<Rightarrow> char" where
  "lower_char c =
     (let n = (of_char c :: nat)
      in if (65 \<le> n \<and> n \<le> 90) \<or> (192 \<le> n \<and> n \<le> 222 \<and> n \<noteq> 215)
         then char_of (n + 32) else c)"

definition lower :: "string \<Rightarrow> string" where
  "lower s = map lower_char s"

text \<open>
  \<open>sub in s\<close> on strings: \<open>sub\<close> occurs in \<open>s\<close> as a contiguous run, tried at every
  position from the left. The empty string occurs in every string.
\<close>

fun contains :: "'a list \<Rightarrow> 'a list \<Rightarrow> bool" where
  "contains [] sub = (sub = [])"
| "contains (c # cs) sub = (prefix sub (c # cs) \<or> contains cs sub)"

section \<open>Parameter extraction\<close>

text \<open>
  \<open>_extract_limit\<close> searches the lowered query for the pattern
  \<^verbatim>\<open>(\d+)\s*(hosts?|triggers?|items?)\<close>. In the modelled range \<^verbatim>\<open>\d\<close> is an ASCII digit
  and \<^verbatim>\<open>\s\<close> is one of the code points 9 to 13, 28 to 32, 133 and 160.

  \<open>limit_match_at\<close> is an attempt at one start position. The engine takes the digits
  greedily, then the white space greedily, then needs one of the nouns. Giving back a
  digit or a white-space character never helps, since the character given back would have
  to start a white-space run or a noun, and no noun starts with a digit or a space: the
  greedy attempt decides the position. The optional \<open>s\<close> of a noun does not change
  whether the pattern matches nor what group 1 holds.
\<close>

definition is_digit :: "char \<Rightarrow> bool" where
  "is_digit c = (let n = (of_char c :: nat) in 48 \<le> n \<and> n \<le> 57)"

definition is_space :: "char \<Rightarrow> bool" where
  "is_space c =
     (let n = (of_char c :: nat)
      in (9 \<le> n \<and> n \<le> 13) \<or> (28 \<le> n \<and> n \<le> 32) \<or> n = 133 \<or> n = 160)"

definition noun_prefix :: "string \<Rightarrow> bool" where
  "noun_prefix s = (prefix ''host'' s \<or> prefix ''trigger'' s \<or> prefix ''item'' s)"

definition limit_match_at :: "string \<Rightarrow> string option" where
  "limit_match_at s =
     (let digits = takeWhile is_digit s;
          rest = dropWhile is_space (dropWhile is_digit s)
      in if digits \<noteq> [] \<and> noun_prefix rest then Some digits else None)"

text \<open>\<open>re.search\<close>: the first start position, from the left, at which the pattern matches;
  the result is group 1.\<close>

fun re_search_limit :: "string \<Rightarrow> string option" where
  "re_search_limit [] = None"
| "re_search_limit (c # cs) =
     (case limit_match_at (c # cs) of
        Some digits \<Rightarrow> Some digits
      | None \<Rightarrow> re_search_limit cs)"

text \<open>
  \<open>int(digits)\<close> on a run of ASCII digits. Python's integers are unbounded, but the
  conversion from a string is not: by default the interpreter refuses a string of more
  than 4300 digits with \<open>ValueError\<close> (the limit counts the digits as written,
  leading zeros included). \<open>digits_value\<close> is the number the digits denote.
\<close>

definition int_max_str_digits :: nat where
  "int_max_str_digits = 4300"

definition digits_value :: "string \<Rightarrow> int" where
  "digits_value ds = foldl (\<lambda>acc c. 10 * acc + (int (of_char c) - 48)) 0 ds"

definition int_of_digits :: "string \<Rightarrow> exn + int" where
  "int_of_digits ds =
     (if length ds > int_max_str_digits
      then Inl (ValueError
             (''Exceeds the limit (4300 digits) for integer string conversion: value has ''
              @ str_nat (length ds)
              @ '' digits; use sys.set_int_max_str_digits() to increase the limit''))
      else Inr (digits_value ds))"

text \<open>
  \<open>_extract_limit\<close>: \<open>None\<close> when the pattern does not match, otherwise
  \<open>int(limit_match.group(1))\<close>, which may raise.
\<close>

definition extract_limit :: "string \<Rightarrow> exn + int option" where
  "extract_limit query =
     (case re_search_limit (lower query) of
        None \<Rightarrow> Inr None
      | Some digits \<Rightarrow>
          (case int_of_digits digits of
             Inl e \<Rightarrow> Inl e
           | Inr limit \<Rightarrow> Inr (Some limit)))"

text \<open>
  \<open>_extract_severity\<close>: the dictionary \<open>severity_map\<close> is iterated in insertion order,
  so it is an association list here. The loop returns at the first key that occurs in the
  lowered query, with the mapped name in a one-element list.
\<close>

definition severity_map :: "(string \<times> string) list" where
  "severity_map =
     [(''not classified'', ''not_classified''),
      (''information'', ''information''),
      (''warning'', ''warning''),
      (''average'', ''average''),
      (''high'', ''high''),
      (''disaster'', ''disaster'')]"

fun first_severity :: "(string \<times> string) list \<Rightarrow> string \<Rightarrow> string list option" where
  "first_severity [] query = None"
| "first_severity ((severity, mapped_severity) # rest) query =
     (if contains query severity then Some [mapped_severity] else first_severity rest query)"

definition extract_severity :: "string \<Rightarrow> string list option" where
  "extract_severity query = first_severity severity_map (lower query)"

section \<open>Records of the monitoring API\<close>

text \<open>
  A record returned by the monitoring API is a dictionary from field names to strings.
  \<open>d[key]\<close> raises \<open>KeyError\<close> when the key is missing; \<open>d.get(key, default)\<close> does
  not raise.
\<close>

type_synonym pydict = "(string \<times> string) list"

definition getitem :: "pydict \<Rightarrow> string \<Rightarrow> exn + string" where
  "getitem d key = (case map_of d key of None \<Rightarrow> Inl (KeyError key) | Some v \<Rightarrow> Inr v)"

definition get_default :: "pydict \<Rightarrow> string \<Rightarrow> string \<Rightarrow> string" where
  "get_default d key dflt = (case map_of d key of None \<Rightarrow> dflt | Some v \<Rightarrow> v)"

text \<open>A list comprehension or loop whose body may raise: the first exception ends it.\<close>

fun map_exn :: "('a \<Rightarrow> exn + 'b) \<Rightarrow> 'a list \<Rightarrow> exn + 'b list" where
  "map_exn f [] = Inr []"
| "map_exn f (x # xs) =
     (case f x of
        Inl e \<Rightarrow> Inl e
      | Inr y \<Rightarrow> (case map_exn f xs of Inl e \<Rightarrow> Inl e | Inr ys \<Rightarrow> Inr (y # ys)))"

text \<open>
  The request of \<open>trigger.get\<close>: the keyword arguments built in \<open>get_triggers\<close>. A
  priority is the number of a known severity name, or the given name itself when
  \<open>severity_map.get(sev.lower(), sev)\<close> falls back to it.
\<close>

record trigger_params =
  output_fields :: "string list"
  sortfield :: string
  sortorder :: string
  filter_priority :: "(int + string) list option"

text \<open>
  The monitoring client, an external collaborator: each call returns records or raises.
  \<open>self.zabbix\<close> is \<open>None\<close> when the login failed at start-up, and then every attribute
  access on it raises \<open>AttributeError\<close>.
\<close>

record zabbix_client =
  host_get :: "string list \<Rightarrow> exn + pydict list"
  trigger_get :: "trigger_params \<Rightarrow> exn + pydict list"

text \<open>
  What a capability is called with by \<open>_run_tool\<close>: no argument, \<open>limit=\<close>, or
  \<open>limit=\<close> and \<open>severity=\<close>.
\<close>

datatype call_args =
    NoArgs
  | LimitArg "int option"
  | LimitSeverityArgs "int option" "string list option"

text \<open>
  The object \<open>self\<close> of \<open>ZabbixToolFunctions\<close>, with what its methods take from the
  platform: \<open>str\<close> on a record, \<open>int\<close> on a string, and the local-time rendering
  \<open>datetime.fromtimestamp(t).strftime(...)\<close>. \<open>other_capability\<close> stands for the
  wrappers of \<open>initialize_zabbix_tools\<close> other than \<open>get_hosts\<close> and
  \<open>get_triggers\<close>, named by the wrapper's name: what each returns or raises when it is
  called with the given arguments.
\<close>

record zabbix_tool_functions =
  zabbix :: "zabbix_client option"
  str_record :: "pydict \<Rightarrow> string"
  parse_int :: "string \<Rightarrow> exn + int"
  format_timestamp :: "int \<Rightarrow> exn + string"
  other_capability :: "string \<Rightarrow> call_args \<Rightarrow> exn + string"

section \<open>ZabbixToolFunctions.get_hosts\<close>

text \<open>One round of the loop of \<open>_host_formatter\<close>: the text for one host.\<close>

definition host_info :: "bool \<Rightarrow> pydict \<Rightarrow> exn + string" where
  "host_info include_details host =
     (case getitem host ''status'' of
        Inl e \<Rightarrow> Inl e
      | Inr st \<Rightarrow>
          let status = (if st = ''0'' then ''Enabled'' else ''Disabled'') in
          (case getitem host ''name'' of
             Inl e \<Rightarrow> Inl e
           | Inr nm \<Rightarrow>
               (case getitem host ''hostid'' of
                  Inl e \<Rightarrow> Inl e
                | Inr hid \<Rightarrow>
                    let info = ''Host: '' @ nm @ '' (ID: '' @ hid @ '', Status: '' @ status @ '')''
                    in Inr (if include_details
                            then info @ [CHR 0x0A] @ ''  Hostname: '' @ get_default host ''host'' ''N/A''
                                 @ [CHR 0x0A] @ ''  Description: ''
                                 @ get_default host ''description'' ''No description''
                            else info))))"

definition host_formatter :: "bool \<Rightarrow> pydict list \<Rightarrow> exn + string" where
  "host_formatter include_details host_list =
     (case map_exn (host_info include_details) host_list of
        Inl e \<Rightarrow> Inl e
      | Inr formatted_hosts \<Rightarrow> Inr (join [CHR 0x0A, CHR 0x0A] formatted_hosts))"

text \<open>\<open>self.zabbix.host.get(output=output_fields)\<close>.\<close>

definition call_host_get :: "zabbix_tool_functions \<Rightarrow> string list \<Rightarrow> exn + pydict list" where
  "call_host_get self out_fields =
     (case zabbix self of
        None \<Rightarrow> Inl (AttributeError (quoted ''NoneType'' @ '' object has no attribute '' @ quoted ''host''))
      | Some client \<Rightarrow> host_get client out_fields)"

text \<open>
  \<open>get_hosts(page, page_size, include_details)\<close>. The whole body is inside
  \<open>try ... except Exception\<close>, so the method returns a text in every case.
\<close>

definition get_hosts :: "zabbix_tool_functions \<Rightarrow> int \<Rightarrow> int \<Rightarrow> bool \<Rightarrow> string" where
  "get_hosts self page psize include_details =
     (let out_fields =
            [''hostid'', ''name'', ''status'']
            @ (if include_details then [''host'', ''description''] else []);
          attempt =
            (case call_host_get self out_fields of
               Inl e \<Rightarrow> Inl e
             | Inr hosts \<Rightarrow>
                 paginate_and_format (str_record self) hosts page psize
                   (host_formatter include_details))
      in case attempt of
           Inl e \<Rightarrow> ''Error retrieving hosts: '' @ str_exn e
         | Inr response \<Rightarrow> response)"

section \<open>ZabbixToolFunctions.get_triggers\<close>

definition priority_name :: "int \<Rightarrow> string" where
  "priority_name p =
     (if p = 0 then ''Not Classified'' else if p = 1 then ''Information''
      else if p = 2 then ''Warning'' else if p = 3 then ''Average''
      else if p = 4 then ''High'' else if p = 5 then ''Disaster'' else ''Unknown'')"

text \<open>One round of the loop of \<open>_trigger_formatter\<close>. \<open>trigger.get('lastchange')\<close> is
  falsy when the key is missing or its value is the empty string.\<close>

definition trigger_info :: "zabbix_tool_functions \<Rightarrow> pydict \<Rightarrow> exn + string" where
  "trigger_info self trigger =
     (case getitem trigger ''priority'' of Inl e \<Rightarrow> Inl e | Inr pr \<Rightarrow>
      case parse_int self pr of Inl e \<Rightarrow> Inl e | Inr p \<Rightarrow>
      case getitem trigger ''status'' of Inl e \<Rightarrow> Inl e | Inr st \<Rightarrow>
      case getitem trigger ''value'' of Inl e \<Rightarrow> Inl e | Inr v \<Rightarrow>
      case getitem trigger ''description'' of Inl e \<Rightarrow> Inl e | Inr descr \<Rightarrow>
      case getitem trigger ''triggerid'' of Inl e \<Rightarrow> Inl e | Inr tid \<Rightarrow>
        let lines =
              [''Trigger: '' @ descr,
               ''  ID: '' @ tid,
               ''  Priority: '' @ priority_name p,
               ''  Status: '' @ (if st = ''0'' then ''Enabled'' else ''Disabled''),
               ''  Current State: '' @ (if v = ''1'' then ''Problem'' else ''OK'')];
            lastchange = get_default trigger ''lastchange'' ''''
        in if lastchange = '''' then Inr (join [CHR 0x0A] lines)
           else (case parse_int self lastchange of Inl e \<Rightarrow> Inl e | Inr t \<Rightarrow>
                 case format_timestamp self t of Inl e \<Rightarrow> Inl e | Inr timestamp \<Rightarrow>
                   Inr (join [CHR 0x0A] (lines @ [''  Last Changed: '' @ timestamp]))))"

definition trigger_formatter :: "zabbix_tool_functions \<Rightarrow> pydict list \<Rightarrow> exn + string" where
  "trigger_formatter self trigger_list =
     (case map_exn (trigger_info self) trigger_list of
        Inl e \<Rightarrow> Inl e
      | Inr formatted_triggers \<Rightarrow> Inr (join [CHR 0x0A, CHR 0x0A] formatted_triggers))"

text \<open>\<open>severity_map.get(sev.lower(), sev)\<close> inside \<open>get_triggers\<close>.\<close>

definition severity_priority :: "string \<Rightarrow> int + string" where
  "severity_priority sev =
     (let s = lower sev
      in if s = ''not_classified'' then Inl 0 else if s = ''information'' then Inl 1
         else if s = ''warning'' then Inl 2 else if s = ''average'' then Inl 3
         else if s = ''high'' then Inl 4 else if s = ''disaster'' then Inl 5
         else Inr sev)"

definition call_trigger_get :: "zabbix_tool_functions \<Rightarrow> trigger_params \<Rightarrow> exn + pydict list" where
  "call_trigger_get self params =
     (case zabbix self of
        None \<Rightarrow> Inl (AttributeError (quoted ''NoneType'' @ '' object has no attribute '' @ quoted ''trigger''))
      | Some client \<Rightarrow> trigger_get client params)"

text \<open>
  \<open>get_triggers(page, page_size, severity_filter)\<close>: an empty or missing
  \<open>severity_filter\<close> is falsy and adds no filter.
\<close>

definition get_triggers ::
  "zabbix_tool_functions \<Rightarrow> int \<Rightarrow> int \<Rightarrow> string list option \<Rightarrow> string" where
  "get_triggers self page psize severity_filter =
     (let params =
            \<lparr>output_fields = [''triggerid'', ''description'', ''priority'', ''status'',
                       ''lastchange'', ''value''],
             sortfield = ''lastchange'', sortorder = ''DESC'',
             filter_priority =
               (case severity_filter of
                  None \<Rightarrow> None
                | Some sevs \<Rightarrow> if sevs = [] then None else Some (map severity_priority sevs))\<rparr>;
          attempt =
            (case call_trigger_get self params of
               Inl e \<Rightarrow> Inl e
             | Inr triggers \<Rightarrow>
                 paginate_and_format (str_record self) triggers page psize
                   (trigger_formatter self))
      in case attempt of
           Inl e \<Rightarrow> ''Error retrieving triggers: '' @ str_exn e
         | Inr response \<Rightarrow> response)"

text \<open>
  The names a call may bind by keyword: the parameters of the method. A keyword that is
  not among them makes the call itself raise \<open>TypeError\<close>, before the body (and its
  \<open>try\<close>) is entered.
\<close>

definition get_triggers_parameters :: "string list" where
  "get_triggers_parameters = [''page'', ''page_size'', ''severity_filter'']"

definition bind_keywords :: "string \<Rightarrow> string list \<Rightarrow> string list \<Rightarrow> exn + unit" where
  "bind_keywords fname parameters keywords =
     (case filter (\<lambda>k. k \<notin> set parameters) keywords of
        [] \<Rightarrow> Inr ()
      | k # _ \<Rightarrow>
          Inl (TypeError (fname @ ''() got an unexpected keyword argument '' @ quoted k)))"

section \<open>initialize_zabbix_tools\<close>

text \<open>
  A \<open>Tool\<close> of the registry: its name, its bound function and its description. The
  bound function is a closure over the \<open>ZabbixToolFunctions\<close> object.
\<close>

record tool =
  name :: string
  func :: "call_args \<Rightarrow> exn + string"
  description :: string

text \<open>\<open>limit or 50\<close>: \<open>None\<close> and 0 are falsy.\<close>

definition limit_or_50 :: "int option \<Rightarrow> int" where
  "limit_or_50 limit = (case limit of None \<Rightarrow> 50 | Some l \<Rightarrow> if l = 0 then 50 else l)"

text \<open>The wrapper \<open>get_hosts(limit=None)\<close>: it has no parameter \<open>severity\<close>.\<close>

definition tool_get_hosts :: "zabbix_tool_functions \<Rightarrow> call_args \<Rightarrow> exn + string" where
  "tool_get_hosts zabbix_tools args =
     (case args of
        NoArgs \<Rightarrow> Inr (get_hosts zabbix_tools 1 (limit_or_50 None) True)
      | LimitArg limit \<Rightarrow> Inr (get_hosts zabbix_tools 1 (limit_or_50 limit) True)
      | LimitSeverityArgs limit severity \<Rightarrow>
          (case bind_keywords ''initialize_zabbix_tools.<locals>.get_hosts'' [''limit'']
                  [''limit'', ''severity''] of
             Inl e \<Rightarrow> Inl e
           | Inr u \<Rightarrow> Inr (get_hosts zabbix_tools 1 (limit_or_50 limit) True)))"

text \<open>
  The wrapper \<open>get_triggers(limit=None, severity=None)\<close>. Its body is the call
  \<open>zabbix_tools.get_triggers(limit=limit, severity_filter=severity)\<close>: the keywords
  \<open>limit\<close> and \<open>severity_filter\<close> are bound against the parameters of the method first.
\<close>

definition tool_get_triggers :: "zabbix_tool_functions \<Rightarrow> call_args \<Rightarrow> exn + string" where
  "tool_get_triggers zabbix_tools args =
     (let severity =
            (case args of
               NoArgs \<Rightarrow> None
             | LimitArg limit \<Rightarrow> None
             | LimitSeverityArgs limit sev \<Rightarrow> sev)
      in case bind_keywords ''ZabbixToolFunctions.get_triggers'' get_triggers_parameters
                [''limit'', ''severity_filter''] of
           Inl e \<Rightarrow> Inl e
         | Inr u \<Rightarrow> Inr (get_triggers zabbix_tools 1 50 severity))"

text \<open>The list that \<open>initialize_zabbix_tools\<close> returns, in the order it is written.\<close>

definition initialize_zabbix_tools :: "zabbix_tool_functions \<Rightarrow> tool list" where
  "initialize_zabbix_tools zabbix_tools =
     [\<lparr>name = ''Get Hosts'', func = tool_get_hosts zabbix_tools,
       description = ''Retrieve a list of hosts.''\<rparr>,
      \<lparr>name = ''Get Hosts Limit'', func = other_capability zabbix_tools ''get_hosts_limit'',
       description = ''Retrieve a limited number of hosts with pagination.''\<rparr>,
      \<lparr>name = ''Get Items'', func = other_capability zabbix_tools ''get_items'',
       description = ''Retrieve a list of items.''\<rparr>,
      \<lparr>name = ''Get Triggers'', func = tool_get_triggers zabbix_tools,
       description = ''Retrieve triggers with optional limit and severity filtering.''\<rparr>,
      \<lparr>name = ''Get Events'', func = other_capability zabbix_tools ''get_events'',
       description = ''Retrieve events.''\<rparr>,
      \<lparr>name = ''Get Host Status'', func = other_capability zabbix_tools ''get_host_status'',
       description = ''Get host statuses.''\<rparr>,
      \<lparr>name = ''Get Item Values'', func = other_capability zabbix_tools ''get_item_values'',
       description = ''Get item values.''\<rparr>,
      \<lparr>name = ''Get Host Inventory'', func = other_capability zabbix_tools ''get_host_inventory'',
       description = ''Get host inventory.''\<rparr>,
      \<lparr>name = ''Get Host Alerts'', func = other_capability zabbix_tools ''get_host_alerts'',
       description = ''Get host alerts.''\<rparr>,
      \<lparr>name = ''Get Application Items'',
       func = other_capability zabbix_tools ''get_application_items'',
       description = ''Get application items.''\<rparr>,
      \<lparr>name = ''Get Item by Key'', func = other_capability zabbix_tools ''get_item_by_key'',
       description = ''Retrieve item using key.''\<rparr>,
      \<lparr>name = ''Get Event History'', func = other_capability zabbix_tools ''get_event_history'',
       description = ''Get event history.''\<rparr>,
      \<lparr>name = ''Get Alert History'', func = other_capability zabbix_tools ''get_alert_history'',
       description = ''Get alert history.''\<rparr>,
      \<lparr>name = ''Get System Performance'',
       func = other_capability zabbix_tools ''get_system_performance'',
       description = ''Get system performance.''\<rparr>,
      \<lparr>name = ''Get Trigger Performance'',
       func = other_capability zabbix_tools ''get_trigger_performance'',
       description = ''Get trigger performance.''\<rparr>,
      \<lparr>name = ''Get Graph Data'', func = other_capability zabbix_tools ''get_graph_data'',
       description = ''Get graph data.''\<rparr>,
      \<lparr>name = ''Get Trend Data'', func = other_capability zabbix_tools ''get_trend_data'',
       description = ''Get trend data.''\<rparr>,
      \<lparr>name = ''Get Metrics by Host'', func = other_capability zabbix_tools ''get_metrics_by_host'',
       description = ''Get metrics by host.''\<rparr>,
      \<lparr>name = ''Get Zabbix Performance Data'',
       func = other_capability zabbix_tools ''get_zabbix_performance_data'',
       description = ''Get Zabbix performance data.''\<rparr>,
      \<lparr>name = ''Get DB Performance'', func = other_capability zabbix_tools ''get_db_performance'',
       description = ''Get database performance.''\<rparr>,
      \<lparr>name = ''Get Network Performance'',
       func = other_capability zabbix_tools ''get_network_performance'',
       description = ''Get network performance.''\<rparr>,
      \<lparr>name = ''Get Proxy Performance'',
       func = other_capability zabbix_tools ''get_proxy_performance'',
       description = ''Get proxy performance.''\<rparr>,
      \<lparr>name = ''Get SLA Data'', func = other_capability zabbix_tools ''get_sla_data'',
       description = ''Get SLA data.''\<rparr>,
      \<lparr>name = ''Get Users'', func = other_capability zabbix_tools ''get_users'',
       description = ''Retrieve a list of users from Zabbix.''\<rparr>,
      \<lparr>name = ''Get User Groups'', func = other_capability zabbix_tools ''get_user_groups'',
       description = ''Get user groups.''\<rparr>,
      \<lparr>name = ''Get User Roles'', func = other_capability zabbix_tools ''get_user_roles'',
       description = ''Get user roles.''\<rparr>,
      \<lparr>name = ''Get Custom Item'', func = other_capability zabbix_tools ''get_custom_item'',
       description = ''Get custom item by key.''\<rparr>,
      \<lparr>name = ''Get Items by Host Group'',
       func = other_capability zabbix_tools ''get_items_by_host_group'',
       description = ''Get items by host group.''\<rparr>,
      \<lparr>name = ''Get Host by Name'', func = other_capability zabbix_tools ''get_host_by_name'',
       description = ''Get host by name.''\<rparr>,
      \<lparr>name = ''Get Trigger by Expression'',
       func = other_capability zabbix_tools ''get_trigger_by_expression'',
       description = ''Get trigger by expression.''\<rparr>,
      \<lparr>name = ''Get Dependencies by Trigger'',
       func = other_capability zabbix_tools ''get_dependencies_by_trigger'',
       description = ''Get dependencies.''\<rparr>,
      \<lparr>name = ''Get Screens'', func = other_capability zabbix_tools ''get_screens'',
       description = ''Get all screens.''\<rparr>,
      \<lparr>name = ''Get Graphs by Host'', func = other_capability zabbix_tools ''get_graphs_by_host'',
       description = ''Get graphs for host.''\<rparr>,
      \<lparr>name = ''Get Zabbix API Limits'',
       func = other_capability zabbix_tools ''get_zabbix_api_limits'',
       description = ''Get API limits.''\<rparr>,
      \<lparr>name = ''Get Scheduled Tasks'', func = other_capability zabbix_tools ''get_scheduled_tasks'',
       description = ''Get scheduled tasks.''\<rparr>,
      \<lparr>name = ''Get Host Maintenance'',
       func = other_capability zabbix_tools ''get_host_maintenance'',
       description = ''Get host maintenance.''\<rparr>,
      \<lparr>name = ''Get Maintenance Periods'',
       func = other_capability zabbix_tools ''get_maintenance_periods'',
       description = ''Get maintenance periods.''\<rparr>,
      \<lparr>name = ''Get Automated Tasks'', func = other_capability zabbix_tools ''get_automated_tasks'',
       description = ''Get automated tasks.''\<rparr>,
      \<lparr>name = ''Get Zabbix Task Status'',
       func = other_capability zabbix_tools ''get_zabbix_task_status'',
       description = ''Get task status.''\<rparr>,
      \<lparr>name = ''Get Notification Settings'',
       func = other_capability zabbix_tools ''get_notification_settings'',
       description = ''Get notification settings.''\<rparr>,
      \<lparr>name = ''Get System Performance'',
       func = other_capability zabbix_tools ''get_zabbix_status'',
       description =
         ''Retrieve system performance metrics like CPU load, memory, and disk usage.''\<rparr>]"

section \<open>ZabbixAssistant\<close>

datatype message = SystemMessage string | HumanMessage string | AIMessage string

fun message_content :: "message \<Rightarrow> string" where
  "message_content (SystemMessage c) = c"
| "message_content (HumanMessage c) = c"
| "message_content (AIMessage c) = c"

text \<open>
  The three prompts sent to the language model. The fixed instruction texts and the two
  worked examples are constants of the source and are not repeated: a prompt is given by
  its kind and by the parts that vary. \<open>ToolSelectionPrompt\<close> holds the joined tool
  descriptions and the trimmed messages, \<open>InterpretationPrompt\<close> the user query and the
  tool response, \<open>DefaultPrompt\<close> the trimmed messages.
\<close>

datatype prompt =
    ToolSelectionPrompt string "message list"
  | InterpretationPrompt string string
  | DefaultPrompt "message list"

text \<open>
  The assistant object: the language model behind \<open>prompt | self.llm | StrOutputParser()\<close>,
  the library function \<open>trim_messages\<close> with the model as its token counter (given
  \<open>max_tokens\<close> and the messages), and the registry. Both collaborators return a value
  or raise.
\<close>

record zabbix_assistant =
  llm :: "prompt \<Rightarrow> exn + string"
  trim_messages :: "int \<Rightarrow> message list \<Rightarrow> exn + message list"
  tools :: "tool list"

text \<open>\<open>ZabbixAssistant.__init__\<close>, as far as the turn uses it.\<close>

definition init_assistant ::
  "zabbix_tool_functions \<Rightarrow> (prompt \<Rightarrow> exn + string)
     \<Rightarrow> (int \<Rightarrow> message list \<Rightarrow> exn + message list) \<Rightarrow> zabbix_assistant" where
  "init_assistant zabbix_tools model trimmer =
     \<lparr>llm = model, trim_messages = trimmer, tools = initialize_zabbix_tools zabbix_tools\<rparr>"

text \<open>\<open>xs[start:]\<close>: the slice to the end of the list.\<close>

definition py_slice_from :: "'a list \<Rightarrow> int \<Rightarrow> 'a list" where
  "py_slice_from xs start =
     (let n = int (length xs);
          s = (if start < 0 then max (start + n) 0 else min start n)
      in drop (nat s) xs)"

text \<open>\<open>xs[-1]\<close> raises \<open>IndexError\<close> on an empty list.\<close>

definition py_last :: "'a list \<Rightarrow> exn + 'a" where
  "py_last xs =
     (case xs of [] \<Rightarrow> Inl (IndexError ''list index out of range'') | y # ys \<Rightarrow> Inr (last xs))"

text \<open>\<open>_trim_conversation_messages(messages, max_tokens)\<close>.\<close>

definition trim_conversation_messages ::
  "zabbix_assistant \<Rightarrow> message list \<Rightarrow> int \<Rightarrow> message list" where
  "trim_conversation_messages self messages max_tokens =
     (case trim_messages self max_tokens messages of
        Inr trimmed_messages \<Rightarrow> trimmed_messages
      | Inl e \<Rightarrow> py_slice_from messages (- 5))"

text \<open>\<open>_select_tool\<close>: the model's answer to the tool-selection prompt.\<close>

definition tool_descriptions :: "tool list \<Rightarrow> string" where
  "tool_descriptions ts =
     join [CHR 0x0A] (map (\<lambda>t. ''- '' @ name t @ '': '' @ description t) ts)"

definition select_tool :: "zabbix_assistant \<Rightarrow> message list \<Rightarrow> exn + string" where
  "select_tool self trimmed_messages =
     llm self (ToolSelectionPrompt (tool_descriptions (tools self)) trimmed_messages)"

text \<open>\<open>_match_tools\<close>: the tools whose lowered name occurs in the lowered answer, in
  registry order.\<close>

definition match_tools :: "zabbix_assistant \<Rightarrow> string \<Rightarrow> tool list" where
  "match_tools self tool_selection =
     filter (\<lambda>t. contains (lower tool_selection) (lower (name t))) (tools self)"

text \<open>
  \<open>_run_tool\<close>: the two names of \<open>parameter_tools\<close> get extracted parameters, every
  other tool is called without arguments. The arguments are evaluated before the call,
  the limit first, so an exception of \<open>_extract_limit\<close> leaves \<open>_run_tool\<close> and the
  tool is not called.
\<close>

definition run_tool :: "zabbix_assistant \<Rightarrow> tool \<Rightarrow> string \<Rightarrow> exn + string" where
  "run_tool self matched_tool user_query =
     (if name matched_tool = ''Get Hosts''
      then (case extract_limit user_query of
              Inl e \<Rightarrow> Inl e
            | Inr limit \<Rightarrow> func matched_tool (LimitArg limit))
      else if name matched_tool = ''Get Triggers''
      then (case extract_limit user_query of
              Inl e \<Rightarrow> Inl e
            | Inr limit \<Rightarrow>
                func matched_tool (LimitSeverityArgs limit (extract_severity user_query)))
      else func matched_tool NoArgs)"

text \<open>\<open>_default_response\<close>: the generic chat completion over the trimmed messages.\<close>

definition default_response :: "zabbix_assistant \<Rightarrow> message list \<Rightarrow> exn + message list" where
  "default_response self trimmed_messages =
     (case llm self (DefaultPrompt trimmed_messages) of
        Inl e \<Rightarrow> Inl e
      | Inr response \<Rightarrow> Inr [AIMessage response])"

text \<open>
  The part of \<open>chatbot_agent\<close> inside \<open>try\<close>: select, match, and either run the first
  matched tool and interpret its response, or answer generically.
\<close>

definition interpret_tool ::
  "zabbix_assistant \<Rightarrow> tool \<Rightarrow> string \<Rightarrow> exn + message list" where
  "interpret_tool self matched_tool user_query =
     (case run_tool self matched_tool user_query of
        Inl e \<Rightarrow> Inl e
      | Inr tool_response \<Rightarrow>
          (case llm self (InterpretationPrompt user_query tool_response) of
             Inl e \<Rightarrow> Inl e
           | Inr interpreted_response \<Rightarrow> Inr [AIMessage interpreted_response]))"

definition agent_attempt ::
  "zabbix_assistant \<Rightarrow> message list \<Rightarrow> string \<Rightarrow> exn + message list" where
  "agent_attempt self trimmed_messages user_query =
     (case select_tool self trimmed_messages of
        Inl e \<Rightarrow> Inl e
      | Inr tool_selection \<Rightarrow>
          (case match_tools self tool_selection of
             [] \<Rightarrow> default_response self trimmed_messages
           | matched_tool # others \<Rightarrow> interpret_tool self matched_tool user_query))"

definition unexpected_error_text :: string where
  "unexpected_error_text = ''I encountered an unexpected error processing your request.''"

text \<open>
  \<open>chatbot_agent(state)\<close>, returning the messages of the dictionary it returns.
  \<open>trimmed_messages[-1]\<close> is read before the \<open>try\<close>, so its \<open>IndexError\<close> leaves the
  function; every exception inside the \<open>try\<close> becomes the fixed error message.
\<close>

definition chatbot_agent :: "zabbix_assistant \<Rightarrow> message list \<Rightarrow> exn + message list" where
  "chatbot_agent self messages =
     (let trimmed_messages = trim_conversation_messages self messages 3000
      in case py_last trimmed_messages of
           Inl e \<Rightarrow> Inl e
         | Inr latest \<Rightarrow>
             (case agent_attempt self trimmed_messages (message_content latest) of
                Inl e \<Rightarrow> Inr [AIMessage unexpected_error_text]
              | Inr reply \<Rightarrow> Inr reply))"

text \<open>
  One run of the compiled workflow on a thread: the new user message is added to the
  thread's messages, \<open>chatbot_agent\<close> is the only node, and what it returns is added by
  the reducer \<open>add_messages\<close>, which appends messages that are new.
\<close>

definition add_messages :: "message list \<Rightarrow> message list \<Rightarrow> message list" where
  "add_messages left right = left @ right"

definition run_turn :: "zabbix_assistant \<Rightarrow> message list \<Rightarrow> string \<Rightarrow> exn + message list" where
  "run_turn self thread user_input =
     (let state = add_messages thread [HumanMessage user_input]
      in case chatbot_agent self state of
           Inl e \<Rightarrow> Inl e
         | Inr reply \<Rightarrow> Inr (add_messages state reply))"

section \<open>Sample collaborators\<close>

text \<open>
  Concrete collaborators, on which the functions above are run: a platform whose
  \<open>int\<close> reads decimal digits, a monitoring client that cannot be reached, one that
  holds a single trigger of severity disaster, one that holds a single host, a language
  model that answers each kind of prompt with a fixed result, one that answers the
  interpretation prompt with the tool response it was given, and two trimmers.
\<close>

definition sample_functions :: "zabbix_client option \<Rightarrow> zabbix_tool_functions" where
  "sample_functions client =
     \<lparr>zabbix = client,
      str_record = (\<lambda>d. join '', '' (map fst d)),
      parse_int = int_of_digits,
      format_timestamp = (\<lambda>t. Inr (str_int t)),
      other_capability = (\<lambda>wrapper args. Inr ''No data.'')\<rparr>"

definition unreachable_client :: zabbix_client where
  "unreachable_client =
     \<lparr>host_get = (\<lambda>out_fields. Inl (External ''connection refused'')),
      trigger_get = (\<lambda>params. Inl (External ''connection refused''))\<rparr>"

definition disaster_trigger :: pydict where
  "disaster_trigger =
     [(''triggerid'', ''20002''), (''description'', ''Memory Leak Detected''),
      (''priority'', ''5''), (''status'', ''0''), (''lastchange'', ''''), (''value'', ''1'')]"

definition one_trigger_client :: zabbix_client where
  "one_trigger_client =
     \<lparr>host_get = (\<lambda>out_fields. Inr []),
      trigger_get = (\<lambda>params. Inr [disaster_trigger])\<rparr>"

definition web_server_host :: pydict where
  "web_server_host =
     [(''hostid'', ''10001''), (''name'', ''web-server-01''), (''status'', ''0''),
      (''host'', ''web01''), (''description'', ''Front end'')]"

definition one_host_client :: zabbix_client where
  "one_host_client =
     \<lparr>host_get = (\<lambda>out_fields. Inr [web_server_host]),
      trigger_get = (\<lambda>params. Inr [])\<rparr>"

definition scripted_llm ::
  "exn + string \<Rightarrow> exn + string \<Rightarrow> exn + string \<Rightarrow> prompt \<Rightarrow> exn + string" where
  "scripted_llm selection interpretation generic p =
     (case p of
        ToolSelectionPrompt descriptions msgs \<Rightarrow> selection
      | InterpretationPrompt query tool_response \<Rightarrow> interpretation
      | DefaultPrompt msgs \<Rightarrow> generic)"

definition echo_llm :: "string \<Rightarrow> prompt \<Rightarrow> exn + string" where
  "echo_llm selection p =
     (case p of
        ToolSelectionPrompt descriptions msgs \<Rightarrow> Inr selection
      | InterpretationPrompt query tool_response \<Rightarrow> Inr tool_response
      | DefaultPrompt msgs \<Rightarrow> Inr ''Hello.'')"

definition keep_all_trimmer :: "int \<Rightarrow> message list \<Rightarrow> exn + message list" where
  "keep_all_trimmer max_tokens msgs = Inr msgs"

definition failing_trimmer :: "int \<Rightarrow> message list \<Rightarrow> exn + message list" where
  "failing_trimmer max_tokens msgs = Inl (External ''token counter failed'')"

section \<open>Lowering of the characters in use\<close>

text \<open>\<open>lower_char\<close> on the ASCII letters, the digits, the space and the underscore.\<close>

lemma lower_char_ascii:
  "lower_char CHR ''A'' = CHR ''a'' "
  "lower_char CHR ''B'' = CHR ''b'' "
  "lower_char CHR ''C'' = CHR ''c'' "
  "lower_char CHR ''D'' = CHR ''d'' "
  "lower_char CHR ''E'' = CHR ''e'' "
  "lower_char CHR ''F'' = CHR ''f'' "
  "lower_char CHR ''G'' = CHR ''g'' "
  "lower_char CHR ''H'' = CHR ''h'' "
  "lower_char CHR ''I'' = CHR ''i'' "
  "lower_char CHR ''J'' = CHR ''j'' "
  "lower_char CHR ''K'' = CHR ''k'' "
  "lower_char CHR ''L'' = CHR ''l'' "
  "lower_char CHR ''M'' = CHR ''m'' "
  "lower_char CHR ''N'' = CHR ''n'' "
  "lower_char CHR ''O'' = CHR ''o'' "
  "lower_char CHR ''P'' = CHR ''p'' "
  "lower_char CHR ''Q'' = CHR ''q'' "
  "lower_char CHR ''R'' = CHR ''r'' "
  "lower_char CHR ''S'' = CHR ''s'' "
  "lower_char CHR ''T'' = CHR ''t'' "
  "lower_char CHR ''U'' = CHR ''u'' "
  "lower_char CHR ''V'' = CHR ''v'' "
  "lower_char CHR ''W'' = CHR ''w'' "
  "lower_char CHR ''X'' = CHR ''x'' "
  "lower_char CHR ''Y'' = CHR ''y'' "
  "lower_char CHR ''Z'' = CHR ''z'' "
  "lower_char CHR ''a'' = CHR ''a'' "
  "lower_char CHR ''b'' = CHR ''b'' "
  "lower_char CHR ''c'' = CHR ''c'' "
  "lower_char CHR ''d'' = CHR ''d'' "
  "lower_char CHR ''e'' = CHR ''e'' "
  "lower_char CHR ''f'' = CHR ''f'' "
  "lower_char CHR ''g'' = CHR ''g'' "
  "lower_char CHR ''h'' = CHR ''h'' "
  "lower_char CHR ''i'' = CHR ''i'' "
  "lower_char CHR ''j'' = CHR ''j'' "
  "lower_char CHR ''k'' = CHR ''k'' "
  "lower_char CHR ''l'' = CHR ''l'' "
  "lower_char CHR ''m'' = CHR ''m'' "
  "lower_char CHR ''n'' = CHR ''n'' "
  "lower_char CHR ''o'' = CHR ''o'' "
  "lower_char CHR ''p'' = CHR ''p'' "
  "lower_char CHR ''q'' = CHR ''q'' "
  "lower_char CHR ''r'' = CHR ''r'' "
  "lower_char CHR ''s'' = CHR ''s'' "
  "lower_char CHR ''t'' = CHR ''t'' "
  "lower_char CHR ''u'' = CHR ''u'' "
  "lower_char CHR ''v'' = CHR ''v'' "
  "lower_char CHR ''w'' = CHR ''w'' "
  "lower_char CHR ''x'' = CHR ''x'' "
  "lower_char CHR ''y'' = CHR ''y'' "
  "lower_char CHR ''z'' = CHR ''z'' "
  "lower_char CHR ''0'' = CHR ''0'' "
  "lower_char CHR ''1'' = CHR ''1'' "
  "lower_char CHR ''2'' = CHR ''2'' "
  "lower_char CHR ''3'' = CHR ''3'' "
  "lower_char CHR ''4'' = CHR ''4'' "
  "lower_char CHR ''5'' = CHR ''5'' "
  "lower_char CHR ''6'' = CHR ''6'' "
  "lower_char CHR ''7'' = CHR ''7'' "
  "lower_char CHR ''8'' = CHR ''8'' "
  "lower_char CHR ''9'' = CHR ''9'' "
  "lower_char CHR '' '' = CHR '' '' "
  "lower_char CHR ''_'' = CHR ''_''"
  by (simp_all add: lower_char_def char_of_def bit_0)

section \<open>Pagination covers the records\<close>

text \<open>\<open>(n + p - 1) // p\<close> is the ceiling of \<open>n / p\<close> for a positive page size.\<close>

lemma ceil_div_int:
  fixes n p :: int
  assumes "1 \<le> p"
  shows "(n + p - 1) div p = - ((- n) div p)"
proof (cases "n mod p = 0")
  case True
  have "n = p * (n div p)" using True mult_div_mod_eq [of p n] by simp
  then have h: "n + p - 1 = p * (n div p) + (p - 1)" by simp
  have "0 \<le> p - 1" "p - 1 < p" using assms by simp_all
  with h have "(n + p - 1) div p = n div p"
    by (rule int_div_pos_eq)
  moreover have "(- n) div p = - (n div p)" using True assms
    by (simp add: zdiv_zminus1_eq_if)
  ultimately show ?thesis by simp
next
  case False
  have "0 \<le> n mod p" "n mod p < p" using assms by simp_all
  with False have m: "0 < n mod p" "n mod p < p" by simp_all
  have "n = p * (n div p) + n mod p" by simp
  then have h: "n + p - 1 = p * (n div p + 1) + (n mod p - 1)"
    by (simp add: algebra_simps)
  have "0 \<le> n mod p - 1" "n mod p - 1 < p" using m by simp_all
  with h have "(n + p - 1) div p = n div p + 1"
    by (rule int_div_pos_eq)
  moreover have "(- n) div p = - (n div p) - 1" using False assms
    by (simp add: zdiv_zminus1_eq_if)
  ultimately show ?thesis by simp
qed

lemma ceil_div: "1 \<le> p \<Longrightarrow> (n + p - 1) div p = \<lceil>real_of_int n / real_of_int p\<rceil>" for n p :: int
  by (simp add: ceil_div_int ceiling_divide_eq_div)

lemma concat_pages_nat:
  "concat (map (\<lambda>k. take p (drop (k * p) xs)) [0..<m]) = take (m * p) xs"
proof (induction m)
  case 0 show ?case by simp
next
  case (Suc m)
  have "Suc m * p = m * p + p" by simp
  then have "take (Suc m * p) xs = take (m * p) xs @ take p (drop (m * p) xs)"
    by (simp only: take_add)
  with Suc show ?case by simp
qed

lemma py_slice_nonneg:
  "0 \<le> s \<Longrightarrow> 0 \<le> l \<Longrightarrow> py_slice xs s (s + l) = take (nat l) (drop (nat s) xs)"
proof -
  assume s: "0 \<le> s" and l: "0 \<le> l"
  let ?n = "int (length xs)"
  show ?thesis
  proof (cases "s + l \<le> ?n")
    case True
    then have "min (s + l) ?n - min s ?n = l" using s l by simp
    moreover have "min s ?n = s" using True l by simp
    ultimately show ?thesis using s l by (simp add: py_slice_def Let_def)
  next
    case False
    have len: "length (drop (nat (min s ?n)) xs) \<le> nat (min (s + l) ?n - min s ?n)"
      using False s l by (simp add: min_def)
    have len2: "length (drop (nat s) xs) \<le> nat l"
      using False s l by simp
    have "drop (nat (min s ?n)) xs = drop (nat s) xs"
      using s by (simp add: min_def)
    then show ?thesis using s l len len2 by (simp add: py_slice_def Let_def)
  qed
qed

lemma paginated_data_nat:
  "paginated_data xs (int k + 1) (int p) = take p (drop (k * p) xs)"
  using py_slice_nonneg [of "int k * int p" "int p" xs]
  by (simp add: paginated_data_def Let_def nat_mult_distrib)

lemma upto_as_map: "[1..int m] = map (\<lambda>k. int k + 1) [0..<m]"
proof (induction m)
  case 0 show ?case by simp
next
  case (Suc m)
  have "[1..int (Suc m)] = [1..int m] @ [int m + 1]"
    using upto_rec2 [of 1 "int m + 1"] by (simp add: add.commute)
  with Suc show ?case by simp
qed

lemma pages_cover_int:
  fixes n p :: int
  assumes "1 \<le> p"
  shows "n \<le> ((n + p - 1) div p) * p"
proof -
  have "n + p - 1 = p * ((n + p - 1) div p) + (n + p - 1) mod p" by simp
  moreover have "(n + p - 1) mod p < p" using assms by simp
  ultimately have "n + p - 1 < p * ((n + p - 1) div p) + p" by linarith
  then show ?thesis by (simp add: mult.commute)
qed

lemma pages_concat:
  assumes "1 \<le> p"
  shows "concat (map (\<lambda>k. paginated_data data k p) [1..(int (length data) + p - 1) div p]) = data"
proof -
  let ?n = "int (length data)"
  let ?m = "(?n + p - 1) div p"
  have m0: "0 \<le> ?m" using assms by (simp add: pos_imp_zdiv_nonneg_iff)
  have pp: "int (nat p) = p" using assms by simp
  have mm: "int (nat ?m) = ?m" using m0 by simp
  have "?n \<le> ?m * p" using assms by (rule pages_cover_int)
  then have "?n \<le> int (nat ?m * nat p)" using pp mm by simp
  then have cover: "length data \<le> nat ?m * nat p" by linarith
  have "[1..?m] = map (\<lambda>k. int k + 1) [0..<nat ?m]"
    using upto_as_map [of "nat ?m"] mm by simp
  then have "concat (map (\<lambda>k. paginated_data data k p) [1..?m])
      = concat (map (\<lambda>k. paginated_data data (int k + 1) (int (nat p))) [0..<nat ?m])"
    using pp by (simp add: comp_def)
  also have "\<dots> = concat (map (\<lambda>k. take (nat p) (drop (k * nat p) data)) [0..<nat ?m])"
    by (simp only: paginated_data_nat)
  also have "\<dots> = take (nat ?m * nat p) data" by (rule concat_pages_nat)
  also have "\<dots> = data" using cover by simp
  finally show ?thesis .
qed

lemma paginated_data_segment:
  assumes "1 \<le> p" "1 \<le> k"
  shows "paginated_data data k p = take (nat p) (drop (nat ((k - 1) * p)) data)"
proof -
  have "paginated_data data (int (nat (k - 1)) + 1) (int (nat p)) = take (nat p) (drop (nat (k - 1) * nat p) data)"
    by (rule paginated_data_nat)
  moreover have "int (nat (k - 1)) + 1 = k" "int (nat p) = p" using assms by simp_all
  moreover have "nat (k - 1) * nat p = nat ((k - 1) * p)" using assms by (simp add: nat_mult_distrib)
  ultimately show ?thesis by simp
qed

lemma segment_nth:
  fixes p :: nat
  assumes "0 < p" and "i < length data"
  shows "take p (drop ((i div p) * p) data) ! (i mod p) = data ! i"
proof -
  have r: "i mod p < p" using assms(1) by simp
  have e: "(i div p) * p + i mod p = i" by simp
  then have le: "(i div p) * p \<le> length data" using assms(2) by linarith
  have "take p (drop ((i div p) * p) data) ! (i mod p) = drop ((i div p) * p) data ! (i mod p)"
    using r by simp
  also have "\<dots> = data ! ((i div p) * p + i mod p)"
    using le by (rule nth_drop)
  finally show ?thesis using e by simp
qed

text \<open>
  Claim C4. For every page size \<open>p \<ge> 1\<close> and every record list of length \<open>n\<close>,
  \<open>paginate_response\<close> reports \<open>total_pages\<close> equal to the ceiling of \<open>n / p\<close> and
  \<open>total_items = n\<close> on every page. On page \<open>k \<ge> 1\<close> what it formats, with any
  formatter and with the default one, is the run of at most \<open>p\<close> records that starts at
  position \<open>(k - 1) * p\<close>, and the content it returns is the formatter's text for that
  run. The runs of the pages 1 to \<open>total_pages\<close>, put one after the other, are the input
  list itself: they are disjoint, hold every record once (record \<open>i\<close> is at place
  \<open>i mod p\<close> of page \<open>i div p + 1\<close>), and their item counts add up to \<open>n\<close>.
\<close>

theorem paginate_response_pages:
  assumes "1 \<le> p"
  shows "(\<forall>page. \<exists>r. paginate_response str_item data page p None = Inr r
            \<and> total_pages r = \<lceil>real (length data) / real_of_int p\<rceil>
            \<and> total_items r = int (length data))
       \<and> (\<forall>k f. 1 \<le> k \<longrightarrow>
             paginate_response str_item data k p (Some f) =
               (case f (take (nat p) (drop (nat ((k - 1) * p)) data)) of
                  Inl e \<Rightarrow> Inl e
                | Inr text \<Rightarrow>
                    Inr \<lparr>content = text, total_items = int (length data),
                         total_pages = \<lceil>real (length data) / real_of_int p\<rceil>,
                         current_page = k, page_size = p\<rparr>))
       \<and> (\<forall>k. 1 \<le> k \<longrightarrow>
             paginate_response str_item data k p None =
               Inr \<lparr>content =
                      join [CHR 0x0A]
                        (map str_item (take (nat p) (drop (nat ((k - 1) * p)) data))),
                    total_items = int (length data),
                    total_pages = \<lceil>real (length data) / real_of_int p\<rceil>,
                    current_page = k, page_size = p\<rparr>)
       \<and> concat (map (\<lambda>k. take (nat p) (drop (nat ((k - 1) * p)) data))
             [1..\<lceil>real (length data) / real_of_int p\<rceil>]) = data
       \<and> (\<Sum>k\<leftarrow>[1..\<lceil>real (length data) / real_of_int p\<rceil>].
             length (take (nat p) (drop (nat ((k - 1) * p)) data))) = length data
       \<and> (\<forall>i < length data.
             take (nat p) (drop (nat ((int (i div nat p) + 1 - 1) * p)) data) ! (i mod nat p)
               = data ! i)"
proof -
  let ?m = "\<lceil>real (length data) / real_of_int p\<rceil>"
  let ?seg = "\<lambda>k. take (nat p) (drop (nat ((k - 1) * p)) data)"
  have p0: "p \<noteq> 0" using assms by simp
  have m: "(int (length data) + p - 1) div p = ?m"
    using ceil_div [OF assms, of "int (length data)"] by simp
  have seg: "paginated_data data k p = ?seg k" if "1 \<le> k" for k
    using assms that by (rule paginated_data_segment)
  have r: "\<forall>page. \<exists>r. paginate_response str_item data page p None = Inr r
            \<and> total_pages r = ?m \<and> total_items r = int (length data)"
    using p0 m by (simp add: paginate_response_def Let_def)
  have f: "\<forall>k f. 1 \<le> k \<longrightarrow>
             paginate_response str_item data k p (Some f) =
               (case f (?seg k) of
                  Inl e \<Rightarrow> Inl e
                | Inr text \<Rightarrow>
                    Inr \<lparr>content = text, total_items = int (length data),
                         total_pages = ?m, current_page = k, page_size = p\<rparr>)"
    using p0 m by (simp add: paginate_response_def Let_def seg split: sum.splits)
  have d: "\<forall>k. 1 \<le> k \<longrightarrow>
             paginate_response str_item data k p None =
               Inr \<lparr>content = join [CHR 0x0A] (map str_item (?seg k)),
                    total_items = int (length data), total_pages = ?m,
                    current_page = k, page_size = p\<rparr>"
    using p0 m by (simp add: paginate_response_def Let_def seg)
  have mp: "map (\<lambda>k. paginated_data data k p) [1..?m] = map ?seg [1..?m]"
    by (rule map_cong) (simp_all add: seg)
  have "concat (map (\<lambda>k. paginated_data data k p) [1..?m]) = data"
    using pages_concat [OF assms, of data] m by simp
  then have c: "concat (map ?seg [1..?m]) = data"
    by (simp only: mp)
  have "length (concat (map ?seg [1..?m])) = (\<Sum>k\<leftarrow>[1..?m]. length (?seg k))"
    by (simp add: length_concat comp_def)
  with c have s: "(\<Sum>k\<leftarrow>[1..?m]. length (?seg k)) = length data" by simp
  have n: "\<forall>i < length data. ?seg (int (i div nat p) + 1) ! (i mod nat p) = data ! i"
  proof (intro allI impI)
    fix i assume i: "i < length data"
    have "nat ((int (i div nat p) + 1 - 1) * p) = (i div nat p) * nat p"
      using assms by (simp add: nat_mult_distrib)
    moreover have "take (nat p) (drop ((i div nat p) * nat p) data) ! (i mod nat p) = data ! i"
      using assms i by (intro segment_nth) simp_all
    ultimately show "?seg (int (i div nat p) + 1) ! (i mod nat p) = data ! i" by simp
  qed
  from r f d c s n show ?thesis by blast
qed

theorem paginate_response_pages_witness:
  "(1::int) \<le> 2
   \<and> paginate_response id [''a'', ''b'', ''c''] 1 2 (Some (\<lambda>xs. Inr (concat xs))) =
       Inr \<lparr>content = ''ab'', total_items = 3, total_pages = 2, current_page = 1, page_size = 2\<rparr>
   \<and> paginate_response id [''a'', ''b'', ''c''] 2 2 (Some (\<lambda>xs. Inr (concat xs))) =
       Inr \<lparr>content = ''c'', total_items = 3, total_pages = 2, current_page = 2, page_size = 2\<rparr>
   \<and> paginate_response id [''a'', ''b'', ''c''] 1 2 None =
       Inr \<lparr>content = ''a'' @ [CHR 0x0A] @ ''b'', total_items = 3, total_pages = 2,
            current_page = 1, page_size = 2\<rparr>"
proof -
  have h: "(1::int) \<le> 2" by simp
  have c: "\<lceil>real (length [''a'', ''b'', ''c'']) / real_of_int 2\<rceil> = 2"
    by (simp add: ceiling_eq_iff)
  note inst = paginate_response_pages [OF h, of id "[''a'', ''b'', ''c'']", unfolded c]
  from inst have f: "\<And>k f. 1 \<le> k \<Longrightarrow>
      paginate_response id [''a'', ''b'', ''c''] k 2 (Some f) =
        (case f (take (nat 2) (drop (nat ((k - 1) * 2)) [''a'', ''b'', ''c''])) of
           Inl e \<Rightarrow> Inl e
         | Inr text \<Rightarrow>
             Inr \<lparr>content = text, total_items = int (length [''a'', ''b'', ''c'']),
                  total_pages = 2, current_page = k, page_size = 2\<rparr>)"
    by blast
  from inst have d: "\<And>k. 1 \<le> k \<Longrightarrow>
      paginate_response id [''a'', ''b'', ''c''] k 2 None =
        Inr \<lparr>content = join [CHR 0x0A]
                 (map id (take (nat 2) (drop (nat ((k - 1) * 2)) [''a'', ''b'', ''c'']))),
             total_items = int (length [''a'', ''b'', ''c'']),
             total_pages = 2, current_page = k, page_size = 2\<rparr>"
    by blast
  have n2: "nat 2 = Suc (Suc 0)" by simp
  show ?thesis
    using f [of 1 "\<lambda>xs. Inr (concat xs)"] f [of 2 "\<lambda>xs. Inr (concat xs)"] d [of 1]
    by (simp add: n2)
qed

section \<open>Pagination at the edges\<close>

lemma str_int_0: "str_int 0 = ''0''"
  by (simp add: str_int_def str_nat.simps digit_char_def char_of_def bit_0)

lemma str_int_1: "str_int 1 = ''1''"
  by (simp add: str_int_def str_nat.simps digit_char_def char_of_def bit_0)

lemma empty_total_pages: "1 \<le> p \<Longrightarrow> (p - 1) div p = 0" for p :: int
  by (simp add: div_pos_pos_trivial)

lemma paginated_data_Nil: "paginated_data [] page psize = []"
  by (simp add: paginated_data_def py_slice_def Let_def)

text \<open>
  Claim C10. For the empty record list and a page size \<open>p \<ge> 1\<close>, \<open>paginate_response\<close>
  returns \<open>total_items = 0\<close>, \<open>total_pages = 0\<close>, the empty content (with the default
  formatter and with the formatters of hosts and of triggers) and \<open>current_page\<close> as
  requested; the formatted result for page 1 is the footer
  \<open>Page 1 of 0 (Total Items: 0)\<close> after two newlines, so the reported current page
  exceeds the reported number of pages.
\<close>

theorem paginate_response_empty:
  assumes "1 \<le> p"
  shows "paginate_response str_item [] page p None =
           Inr \<lparr>content = '''', total_items = 0, total_pages = 0, current_page = page, page_size = p\<rparr>
       \<and> paginate_response str_item [] page p (Some (host_formatter details)) =
           Inr \<lparr>content = '''', total_items = 0, total_pages = 0, current_page = page, page_size = p\<rparr>
       \<and> paginate_response str_item [] page p (Some (trigger_formatter self)) =
           Inr \<lparr>content = '''', total_items = 0, total_pages = 0, current_page = page, page_size = p\<rparr>
       \<and> paginate_and_format str_item [] 1 p (host_formatter details) =
           Inr ([CHR 0x0A, CHR 0x0A] @ ''Page 1 of 0 (Total Items: 0)'')
       \<and> paginate_and_format str_item [] 1 p (trigger_formatter self) =
           Inr ([CHR 0x0A, CHR 0x0A] @ ''Page 1 of 0 (Total Items: 0)'')"
proof -
  have z: "p \<noteq> 0" "(p - 1) div p = 0" using assms by (simp_all add: empty_total_pages)
  have a: "paginate_response str_item [] page p None =
           Inr \<lparr>content = '''', total_items = 0, total_pages = 0, current_page = page, page_size = p\<rparr>"
    for page
    using z by (simp add: paginate_response_def paginated_data_Nil)
  have b: "paginate_response str_item [] page p (Some (host_formatter details)) =
           Inr \<lparr>content = '''', total_items = 0, total_pages = 0, current_page = page, page_size = p\<rparr>"
    for page
    using z by (simp add: paginate_response_def paginated_data_Nil host_formatter_def)
  have c: "paginate_response str_item [] page p (Some (trigger_formatter self)) =
           Inr \<lparr>content = '''', total_items = 0, total_pages = 0, current_page = page, page_size = p\<rparr>"
    for page
    using z by (simp add: paginate_response_def paginated_data_Nil trigger_formatter_def)
  have d: "paginate_and_format str_item [] 1 p (host_formatter details) =
           Inr ([CHR 0x0A, CHR 0x0A] @ ''Page 1 of 0 (Total Items: 0)'')"
    by (simp add: paginate_and_format_def b str_int_0 str_int_1)
  have e: "paginate_and_format str_item [] 1 p (trigger_formatter self) =
           Inr ([CHR 0x0A, CHR 0x0A] @ ''Page 1 of 0 (Total Items: 0)'')"
    by (simp add: paginate_and_format_def c str_int_0 str_int_1)
  from a b c d e show ?thesis by simp
qed

theorem paginate_response_empty_witness:
  "(1::int) \<le> 50
   \<and> paginate_response (str_record (sample_functions None)) [] 1 50 None =
       Inr \<lparr>content = '''', total_items = 0, total_pages = 0, current_page = 1, page_size = 50\<rparr>
   \<and> get_hosts (sample_functions (Some one_trigger_client)) 1 50 True =
       [CHR 0x0A, CHR 0x0A] @ ''Page 1 of 0 (Total Items: 0)''"
proof -
  have h: "(1::int) \<le> 50" by simp
  have g: "get_hosts (sample_functions (Some one_trigger_client)) 1 50 True =
      (case paginate_and_format (str_record (sample_functions (Some one_trigger_client))) [] 1 50 (host_formatter True) of
         Inl e \<Rightarrow> ''Error retrieving hosts: '' @ str_exn e | Inr response \<Rightarrow> response)"
    by (simp add: get_hosts_def call_host_get_def sample_functions_def one_trigger_client_def)
  show ?thesis
    using paginate_response_empty
            [OF h, where str_item = "str_record (sample_functions None)" and page = 1
               and details = True]
          paginate_response_empty
            [OF h, where str_item = "str_record (sample_functions (Some one_trigger_client))"
               and page = 1 and details = True]
    by (simp add: g)
qed

text \<open>
  Claim C7, as stated, fails: a page size of 0 is not clamped to 1 but makes
  \<open>paginate_response\<close> raise \<open>ZeroDivisionError\<close>, and a negative page size gives a
  result other than that of page size 1.
\<close>

theorem paginate_response_zero_counterexample:
  "paginate_response id [''a'', ''b''] 1 0 None = Inl ZeroDivisionError
   \<and> paginate_response id [''a'', ''b''] 1 0 None \<noteq> paginate_response id [''a'', ''b''] 1 1 None
   \<and> paginate_response id [''a'', ''b''] 1 (- 1) None \<noteq> paginate_response id [''a'', ''b''] 1 1 None"
  by (simp add: paginate_response_def paginated_data_def py_slice_def)

text \<open>
  Claim C7, amended. \<open>paginate_response\<close> does not clamp the page size: with the default
  formatter it raises \<open>ZeroDivisionError\<close> exactly when the page size is 0, and whenever
  it returns, the result reports the page size as given and
  \<open>total_pages = (n + page_size - 1) // page_size\<close>. The wrapper of Get Hosts never
  passes 0: it calls \<open>get_hosts\<close> with page 1 and the page size \<open>limit or 50\<close>, which
  is 50 for a missing limit and for the limit 0 and the limit itself otherwise, and this
  is what \<open>_run_tool\<close> runs for the tool Get Hosts when the limit extraction returns.
  With the limit 0 and one host, the result is the page of that host.
\<close>

theorem paginate_response_no_clamp:
  "(paginate_response str_item data page ps None = Inl ZeroDivisionError) = (ps = 0)
   \<and> (\<forall>r. paginate_response str_item data page ps formatter = Inr r \<longrightarrow>
          page_size r = ps \<and> total_pages r = (int (length data) + ps - 1) div ps)
   \<and> limit_or_50 limit \<noteq> 0
   \<and> limit_or_50 None = 50
   \<and> limit_or_50 (Some 0) = 50
   \<and> (l \<noteq> 0 \<longrightarrow> limit_or_50 (Some l) = l)
   \<and> tool_get_hosts zabbix_tools (LimitArg limit) =
       Inr (get_hosts zabbix_tools 1 (limit_or_50 limit) True)
   \<and> (name matched_tool = ''Get Hosts'' \<and> func matched_tool = tool_get_hosts zabbix_tools
        \<and> extract_limit user_query = Inr limit \<longrightarrow>
        run_tool self matched_tool user_query =
          Inr (get_hosts zabbix_tools 1 (limit_or_50 limit) True))
   \<and> tool_get_hosts (sample_functions (Some one_host_client)) (LimitArg (Some 0)) =
       Inr (''Host: web-server-01 (ID: 10001, Status: Enabled)'' @ [CHR 0x0A]
            @ ''  Hostname: web01'' @ [CHR 0x0A] @ ''  Description: Front end''
            @ [CHR 0x0A, CHR 0x0A] @ ''Page 1 of 1 (Total Items: 1)'')"
proof -
  have a: "(paginate_response str_item data page ps None = Inl ZeroDivisionError) = (ps = 0)"
    by (simp add: paginate_response_def Let_def)
  have b: "\<forall>r. paginate_response str_item data page ps formatter = Inr r \<longrightarrow>
          page_size r = ps \<and> total_pages r = (int (length data) + ps - 1) div ps"
    by (auto simp: paginate_response_def Let_def split: option.splits sum.splits if_splits)
  have c: "limit_or_50 limit \<noteq> 0"
    by (simp add: limit_or_50_def split: option.splits)
  have d: "limit_or_50 None = 50" "limit_or_50 (Some 0) = 50"
      "l \<noteq> 0 \<longrightarrow> limit_or_50 (Some l) = l"
    by (simp_all add: limit_or_50_def)
  have e: "tool_get_hosts zabbix_tools (LimitArg limit) =
       Inr (get_hosts zabbix_tools 1 (limit_or_50 limit) True)" for zabbix_tools limit
    by (simp add: tool_get_hosts_def)
  have f: "name matched_tool = ''Get Hosts'' \<and> func matched_tool = tool_get_hosts zabbix_tools
        \<and> extract_limit user_query = Inr limit \<longrightarrow>
        run_tool self matched_tool user_query =
          Inr (get_hosts zabbix_tools 1 (limit_or_50 limit) True)"
    by (simp add: run_tool_def e)
  have g: "tool_get_hosts (sample_functions (Some one_host_client)) (LimitArg (Some 0)) =
       Inr (''Host: web-server-01 (ID: 10001, Status: Enabled)'' @ [CHR 0x0A]
            @ ''  Hostname: web01'' @ [CHR 0x0A] @ ''  Description: Front end''
            @ [CHR 0x0A, CHR 0x0A] @ ''Page 1 of 1 (Total Items: 1)'')"
    by (simp add: e d get_hosts_def call_host_get_def sample_functions_def one_host_client_def
        web_server_host_def paginate_and_format_def paginate_response_def paginated_data_def
        py_slice_def host_formatter_def host_info_def getitem_def get_default_def str_int_1)
  from a b c d e f g show ?thesis by simp
qed

theorem paginate_response_no_clamp_witness:
  "(\<exists>r. paginate_response id [''a'', ''b''] 1 (- 1) None = Inr r \<and> page_size r = - 1 \<and> total_pages r = 0)
   \<and> paginate_response id [''a'', ''b''] 1 0 None = Inl ZeroDivisionError
   \<and> limit_or_50 (Some 7) = 7
   \<and> run_tool (init_assistant (sample_functions (Some one_host_client))
         (echo_llm ''Get Hosts'') keep_all_trimmer)
       \<lparr>name = ''Get Hosts'', func = tool_get_hosts (sample_functions (Some one_host_client)),
          description = ''Retrieve a list of hosts.''\<rparr> ''show 0 hosts''
     = Inr (get_hosts (sample_functions (Some one_host_client)) 1 50 True)"
proof -
  let ?z = "sample_functions (Some one_host_client)"
  let ?t = "\<lparr>name = ''Get Hosts'', func = tool_get_hosts ?z,
              description = ''Retrieve a list of hosts.''\<rparr>"
  have x: "extract_limit ''show 0 hosts'' = Inr (Some 0)"
    by (simp add: extract_limit_def lower_def lower_char_ascii limit_match_at_def is_digit_def
        is_space_def noun_prefix_def int_of_digits_def digits_value_def int_max_str_digits_def)
  have n: "(7::int) \<noteq> 0" by simp
  have q: "name ?t = ''Get Hosts'' \<and> func ?t = tool_get_hosts ?z
      \<and> extract_limit ''show 0 hosts'' = Inr (Some 0)"
    using x by simp
  show ?thesis
    using paginate_response_no_clamp [of id "[''a'', ''b'']" 1 "- 1" None]
          paginate_response_no_clamp [of id "[''a'', ''b'']" 1 0 None]
          paginate_response_no_clamp [where l = 7 and matched_tool = ?t and zabbix_tools = ?z
            and user_query = "''show 0 hosts''" and limit = "Some 0"
            and self = "init_assistant ?z (echo_llm ''Get Hosts'') keep_all_trimmer"]
          n q
    by (simp add: paginate_response_def)
qed

section \<open>The conversation window\<close>

text \<open>
  Claim C5. When \<open>trim_messages\<close> raises, \<open>_trim_conversation_messages\<close> does not
  raise and returns \<open>messages[-5:]\<close>: the last five messages, or all of them when there
  are fewer than five. The tail is taken by position, so a system message is in it only
  if it is among those last messages.
\<close>

theorem trim_failure_falls_back:
  assumes "trim_messages self max_tokens messages = Inl e"
  shows "trim_conversation_messages self messages max_tokens = drop (length messages - 5) messages
       \<and> length (trim_conversation_messages self messages max_tokens) = min 5 (length messages)
       \<and> suffix (trim_conversation_messages self messages max_tokens) messages"
proof -
  have "trim_conversation_messages self messages max_tokens = py_slice_from messages (- 5)"
    using assms by (simp add: trim_conversation_messages_def)
  also have "\<dots> = drop (length messages - 5) messages"
    by (auto simp: py_slice_from_def Let_def max_def nat_diff_distrib)
  finally have r: "trim_conversation_messages self messages max_tokens = drop (length messages - 5) messages" .
  show ?thesis unfolding r by (auto simp: suffix_drop)
qed

theorem trim_failure_falls_back_witness:
  "trim_messages (init_assistant (sample_functions None) (scripted_llm (Inr ''GENERAL'') (Inr ''ok'') (Inr ''ok''))
       failing_trimmer) 3000
     [SystemMessage ''s'', HumanMessage ''1'', AIMessage ''2'', HumanMessage ''3'', AIMessage ''4'',
      HumanMessage ''5'', AIMessage ''6'', HumanMessage ''7''] = Inl (External ''token counter failed'')
   \<and> trim_conversation_messages (init_assistant (sample_functions None)
         (scripted_llm (Inr ''GENERAL'') (Inr ''ok'') (Inr ''ok'')) failing_trimmer)
       [SystemMessage ''s'', HumanMessage ''1'', AIMessage ''2'', HumanMessage ''3'', AIMessage ''4'',
        HumanMessage ''5'', AIMessage ''6'', HumanMessage ''7''] 3000
     = [HumanMessage ''3'', AIMessage ''4'', HumanMessage ''5'', AIMessage ''6'', HumanMessage ''7'']"
proof -
  let ?self = "init_assistant (sample_functions None)
      (scripted_llm (Inr ''GENERAL'') (Inr ''ok'') (Inr ''ok'')) failing_trimmer"
  let ?msgs = "[SystemMessage ''s'', HumanMessage ''1'', AIMessage ''2'', HumanMessage ''3'',
      AIMessage ''4'', HumanMessage ''5'', AIMessage ''6'', HumanMessage ''7'']"
  have h: "trim_messages ?self 3000 ?msgs = Inl (External ''token counter failed'')"
    by (simp add: init_assistant_def failing_trimmer_def)
  show ?thesis
    using h trim_failure_falls_back [OF h] by simp
qed

section \<open>Parameter extraction\<close>

text \<open>The substring test of the model is the relation \<open>sublist\<close>.\<close>

lemma contains_sublist: "contains s sub = sublist sub s"
  by (induction s) (auto simp: sublist_Cons_right)

lemma first_severity_find:
  "first_severity m q =
     (case find (\<lambda>(severity, mapped). sublist severity q) m of
        None \<Rightarrow> None
      | Some (severity, mapped) \<Rightarrow> Some [mapped])"
  by (induction m q rule: first_severity.induct) (simp_all add: contains_sublist)

text \<open>
  The attempt at one position agrees with the pattern read as a set of strings: it
  succeeds with group 1 equal to \<open>ds\<close> exactly when the text from that position is
  a non-empty run of digits \<open>ds\<close>, then a run of white space, then a text that starts
  with one of the nouns. So the greedy reading loses no match and group 1 is determined.
\<close>

lemma space_not_digit: "is_space c \<Longrightarrow> \<not> is_digit c"
  by (auto simp: is_space_def is_digit_def Let_def)

lemma noun_prefix_head:
  assumes "noun_prefix rest"
  shows "\<exists>c r. rest = c # r \<and> \<not> is_digit c \<and> \<not> is_space c"
proof -
  from assms consider r where "rest = ''host'' @ r" | r where "rest = ''trigger'' @ r"
    | r where "rest = ''item'' @ r"
    by (auto simp: noun_prefix_def prefix_def)
  then show ?thesis
    by cases (auto simp: is_digit_def is_space_def)
qed

lemma limit_match_at_sound:
  assumes "limit_match_at s = Some ds"
  shows "ds \<noteq> [] \<and> list_all is_digit ds
       \<and> (\<exists>ws rest. s = ds @ ws @ rest \<and> list_all is_space ws \<and> noun_prefix rest)"
proof -
  let ?ws = "takeWhile is_space (dropWhile is_digit s)"
  let ?rest = "dropWhile is_space (dropWhile is_digit s)"
  from assms have ds: "ds = takeWhile is_digit s" and ne: "ds \<noteq> []" and np: "noun_prefix ?rest"
    by (auto simp: limit_match_at_def Let_def split: if_splits)
  have "s = ds @ ?ws @ ?rest" by (simp add: ds)
  moreover have "list_all is_digit ds" "list_all is_space ?ws"
    by (auto simp: ds list_all_iff dest: set_takeWhileD)
  ultimately show ?thesis using ne np by blast
qed

lemma limit_match_at_complete:
  assumes "ds \<noteq> []" and "list_all is_digit ds" and "list_all is_space ws"
      and "noun_prefix rest"
  shows "limit_match_at (ds @ ws @ rest) = Some ds"
proof -
  from assms(4) obtain c r where rest: "rest = c # r" "\<not> is_digit c" "\<not> is_space c"
    using noun_prefix_head by blast
  have nd: "takeWhile is_digit (ws @ rest) = []"
  proof (cases ws)
    case Nil
    then show ?thesis using rest by simp
  next
    case (Cons w ws')
    then have "is_space w" using assms(3) by simp
    then show ?thesis using Cons space_not_digit by simp
  qed
  have dd: "dropWhile is_digit (ws @ rest) = ws @ rest"
  proof (cases ws)
    case Nil
    then show ?thesis using rest by simp
  next
    case (Cons w ws')
    then have "is_space w" using assms(3) by simp
    then show ?thesis using Cons space_not_digit by simp
  qed
  have all_d: "\<forall>x\<in>set ds. is_digit x" using assms(2) by (simp add: list_all_iff)
  have all_s: "\<forall>x\<in>set ws. is_space x" using assms(3) by (simp add: list_all_iff)
  have t: "takeWhile is_digit (ds @ ws @ rest) = ds"
    using all_d nd by (simp add: takeWhile_append2)
  have d: "dropWhile is_digit (ds @ ws @ rest) = ws @ rest"
    using all_d dd by (simp add: dropWhile_append2)
  have "dropWhile is_space (ws @ rest) = rest"
    using all_s rest by (simp add: dropWhile_append2)
  with t d show ?thesis using assms(1,4) by (simp add: limit_match_at_def Let_def)
qed

lemma limit_match_at_iff:
  "limit_match_at s = Some ds \<longleftrightarrow>
     ds \<noteq> [] \<and> list_all is_digit ds
     \<and> (\<exists>ws rest. s = ds @ ws @ rest \<and> list_all is_space ws \<and> noun_prefix rest)"
  using limit_match_at_sound limit_match_at_complete by blast

text \<open>The search returns the match at the first position that has one.\<close>

lemma re_search_limit_first:
  "(re_search_limit s = Some ds) =
     (\<exists>i<length s. limit_match_at (drop i s) = Some ds
        \<and> (\<forall>j<i. limit_match_at (drop j s) = None))"
proof (induction s)
  case Nil
  show ?case by simp
next
  case (Cons c cs)
  show ?case
  proof (cases "limit_match_at (c # cs)")
    case (Some d)
    have "(\<exists>i<length (c # cs). limit_match_at (drop i (c # cs)) = Some ds
        \<and> (\<forall>j<i. limit_match_at (drop j (c # cs)) = None)) = (d = ds)"
    proof
      assume "\<exists>i<length (c # cs). limit_match_at (drop i (c # cs)) = Some ds
        \<and> (\<forall>j<i. limit_match_at (drop j (c # cs)) = None)"
      then obtain i where i: "limit_match_at (drop i (c # cs)) = Some ds"
          "\<forall>j<i. limit_match_at (drop j (c # cs)) = None" by blast
      have "i = 0"
      proof (rule ccontr)
        assume "i \<noteq> 0"
        then have "limit_match_at (drop 0 (c # cs)) = None" using i(2) by blast
        with Some show False by simp
      qed
      with i(1) Some show "d = ds" by simp
    next
      assume "d = ds"
      with Some have "limit_match_at (drop 0 (c # cs)) = Some ds
          \<and> (\<forall>j<0. limit_match_at (drop j (c # cs)) = None)" by simp
      then show "\<exists>i<length (c # cs). limit_match_at (drop i (c # cs)) = Some ds
        \<and> (\<forall>j<i. limit_match_at (drop j (c # cs)) = None)" by (intro exI [of _ 0]) simp
    qed
    with Some show ?thesis by simp
  next
    case None
    have "(\<exists>i<length (c # cs). limit_match_at (drop i (c # cs)) = Some ds
        \<and> (\<forall>j<i. limit_match_at (drop j (c # cs)) = None))
      = (\<exists>i<length cs. limit_match_at (drop i cs) = Some ds
        \<and> (\<forall>j<i. limit_match_at (drop j cs) = None))"
    proof
      assume "\<exists>i<length (c # cs). limit_match_at (drop i (c # cs)) = Some ds
        \<and> (\<forall>j<i. limit_match_at (drop j (c # cs)) = None)"
      then obtain i where i: "i < length (c # cs)" "limit_match_at (drop i (c # cs)) = Some ds"
          "\<forall>j<i. limit_match_at (drop j (c # cs)) = None" by blast
      from i(2) None obtain k where k: "i = Suc k" by (cases i) simp_all
      have "\<forall>j<k. limit_match_at (drop j cs) = None"
      proof (intro allI impI)
        fix j assume "j < k"
        then have "Suc j < i" using k by simp
        with i(3) have "limit_match_at (drop (Suc j) (c # cs)) = None" by blast
        then show "limit_match_at (drop j cs) = None" by simp
      qed
      with i(1,2) k show "\<exists>i<length cs. limit_match_at (drop i cs) = Some ds
        \<and> (\<forall>j<i. limit_match_at (drop j cs) = None)" by auto
    next
      assume "\<exists>i<length cs. limit_match_at (drop i cs) = Some ds
        \<and> (\<forall>j<i. limit_match_at (drop j cs) = None)"
      then obtain k where k: "k < length cs" "limit_match_at (drop k cs) = Some ds"
          "\<forall>j<k. limit_match_at (drop j cs) = None" by blast
      have "\<forall>j<Suc k. limit_match_at (drop j (c # cs)) = None"
      proof (intro allI impI)
        fix j assume j: "j < Suc k"
        show "limit_match_at (drop j (c # cs)) = None"
        proof (cases j)
          case 0
          with None show ?thesis by simp
        next
          case (Suc j')
          with j k(3) show ?thesis by simp
        qed
      qed
      with k(1,2) show "\<exists>i<length (c # cs). limit_match_at (drop i (c # cs)) = Some ds
        \<and> (\<forall>j<i. limit_match_at (drop j (c # cs)) = None)"
        by (intro exI [of _ "Suc k"]) simp
    qed
    with None Cons.IH show ?thesis by simp
  qed
qed

lemma int_of_digits_foldl_nonneg:
  "0 \<le> a \<Longrightarrow> 0 \<le> foldl (\<lambda>acc c. 10 * acc + (int (of_char c) - 48)) a (takeWhile is_digit s)"
proof (induction s arbitrary: a)
  case Nil
  then show ?case by simp
next
  case (Cons c s)
  show ?case
  proof (cases "is_digit c")
    case True
    then have "0 \<le> 10 * a + (int (of_char c) - 48)"
      using Cons.prems by (simp add: is_digit_def Let_def)
    then show ?thesis using True Cons.IH by simp
  next
    case False
    then show ?thesis using Cons.prems by simp
  qed
qed

lemma limit_match_at_nonneg: "limit_match_at s = Some ds \<Longrightarrow> 0 \<le> digits_value ds"
  using int_of_digits_foldl_nonneg [of 0 s]
  by (auto simp: limit_match_at_def Let_def digits_value_def split: if_splits)

lemma re_search_limit_nonneg: "re_search_limit s = Some ds \<Longrightarrow> 0 \<le> digits_value ds"
  by (induction s) (auto split: option.splits dest: limit_match_at_nonneg)

lemmas extract_simps = extract_limit_def lower_def lower_char_ascii limit_match_at_def is_digit_def
  is_space_def noun_prefix_def int_of_digits_def digits_value_def int_max_str_digits_def
  extract_severity_def severity_map_def

text \<open>A run of one digit followed by a noun: the search succeeds at the first position.\<close>

lemma lower_replicate_digit: "lower (replicate n CHR ''1'' @ '' hosts'') = replicate n CHR ''1'' @ '' hosts''"
  by (simp add: lower_def lower_char_ascii)

lemma re_search_limit_digit_run:
  assumes "0 < n"
  shows "re_search_limit (replicate n CHR ''1'' @ '' hosts'') = Some (replicate n CHR ''1'')"
proof -
  have d: "list_all is_digit (replicate n CHR ''1'')"
    by (simp add: list_all_iff is_digit_def)
  have s: "list_all is_space '' ''"
    by (simp add: is_space_def)
  have np: "noun_prefix ''hosts''" by (simp add: noun_prefix_def)
  have ne: "replicate n CHR ''1'' \<noteq> []" using assms by simp
  have m: "limit_match_at (replicate n CHR ''1'' @ '' '' @ ''hosts'') = Some (replicate n CHR ''1'')"
    using ne d s np by (rule limit_match_at_complete)
  obtain k where k: "n = Suc k" using assms by (cases n) simp_all
  have "re_search_limit (CHR ''1'' # (replicate k CHR ''1'' @ '' hosts''))
      = Some (replicate n CHR ''1'')"
    using m k by simp
  then show ?thesis using k by simp
qed

lemma str_nat_4301: "str_nat 4301 = ''4301''"
  by (simp add: str_nat.simps digit_char_def char_of_def bit_0)

lemma extract_limit_long_run:
  "extract_limit (replicate 4301 CHR ''1'' @ '' hosts'') =
     Inl (ValueError
       (''Exceeds the limit (4300 digits) for integer string conversion: value has 4301''
        @ '' digits; use sys.set_int_max_str_digits() to increase the limit''))"
proof -
  have "re_search_limit (lower (replicate 4301 CHR ''1'' @ '' hosts''))
      = Some (replicate 4301 CHR ''1'')"
    unfolding lower_replicate_digit by (rule re_search_limit_digit_run) simp
  then show ?thesis
    by (simp add: extract_limit_def int_of_digits_def int_max_str_digits_def str_nat_4301)
qed

text \<open>
  Claim C6, as stated, fails: parameter extraction does error on some query texts. On a
  query that holds a run of 4301 digits before the noun, \<open>int\<close> raises \<open>ValueError\<close>
  and \<open>_extract_limit\<close> with it.
\<close>

theorem extract_limit_counterexample:
  "extract_limit (replicate 4301 CHR ''1'' @ '' hosts'') =
     Inl (ValueError
       (''Exceeds the limit (4300 digits) for integer string conversion: value has 4301''
        @ '' digits; use sys.set_int_max_str_digits() to increase the limit''))"
  by (rule extract_limit_long_run)

text \<open>
  Claim C6, amended. The severity extractor never errors: it returns the mapped name of
  the first entry of the vocabulary, in the order not classified, information, warning,
  average, high, disaster, whose key occurs in the lowered query, in a one-element list,
  or \<open>None\<close>. The limit extractor returns \<open>None\<close> exactly when the pattern matches
  nowhere in the lowered query; when it matches, it returns the natural number that the
  matched digits denote, unless the run has more than 4300 digits, and exactly then it
  raises \<open>ValueError\<close>. The pattern matches at a position when the text from there is
  a non-empty run of digits, then a run of white space, then a text that starts with
  host, trigger or item; the match at the first such position is the one taken. Both look at the lowered query, so the case of the query does not
  matter. On \<open>show me 5 triggers with high severity\<close>, in this or in another case, the
  limit is 5 and the severity is \<open>[high]\<close>; on \<open>list hosts\<close> both are \<open>None\<close>.
\<close>

theorem extract_parameters:
  "extract_severity query =
     (case find (\<lambda>(severity, mapped). sublist severity (lower query)) severity_map of
        None \<Rightarrow> None
      | Some (severity, mapped) \<Rightarrow> Some [mapped])
   \<and> severity_map =
       [(''not classified'', ''not_classified''), (''information'', ''information''),
        (''warning'', ''warning''), (''average'', ''average''), (''high'', ''high''),
        (''disaster'', ''disaster'')]
   \<and> ((extract_limit query = Inr None) = (re_search_limit (lower query) = None))
   \<and> ((\<exists>e. extract_limit query = Inl e) =
        (\<exists>ds. re_search_limit (lower query) = Some ds \<and> 4300 < length ds))
   \<and> (\<forall>ds. re_search_limit (lower query) = Some ds \<and> length ds \<le> 4300 \<longrightarrow>
          extract_limit query = Inr (Some (digits_value ds)) \<and> 0 \<le> digits_value ds)
   \<and> ((re_search_limit (lower query) = Some digits) =
        (\<exists>i<length (lower query).
           limit_match_at (drop i (lower query)) = Some digits
           \<and> (\<forall>j<i. limit_match_at (drop j (lower query)) = None)))
   \<and> ((limit_match_at text = Some digits) =
        (digits \<noteq> [] \<and> list_all is_digit digits
         \<and> (\<exists>ws rest. text = digits @ ws @ rest \<and> list_all is_space ws
               \<and> (prefix ''host'' rest \<or> prefix ''trigger'' rest \<or> prefix ''item'' rest))))
   \<and> extract_limit ''show me 5 triggers with high severity'' = Inr (Some 5)
   \<and> extract_severity ''show me 5 triggers with high severity'' = Some [''high'']
   \<and> extract_limit ''list hosts'' = Inr None
   \<and> extract_severity ''list hosts'' = None
   \<and> extract_limit ''Show Me 5 TRIGGERS With High Severity'' = Inr (Some 5)
   \<and> extract_severity ''Show Me 5 TRIGGERS With HIGH Severity'' = Some [''high'']
   \<and> extract_severity ''NOT CLASSIFIED or Disaster'' = Some [''not_classified'']
   \<and> extract_severity ''disaster and warning'' = Some [''warning'']
   \<and> extract_limit ''show 3 hosts and 7 items'' = Inr (Some 3)
   \<and> extract_limit ''room 12b 120Items'' = Inr (Some 120)
   \<and> extract_limit ''5 servers'' = Inr None"
proof -
  have a: "extract_severity query =
     (case find (\<lambda>(severity, mapped). sublist severity (lower query)) severity_map of
        None \<Rightarrow> None
      | Some (severity, mapped) \<Rightarrow> Some [mapped])"
    unfolding extract_severity_def by (rule first_severity_find)
  have b: "(extract_limit query = Inr None) = (re_search_limit (lower query) = None)"
    by (auto simp: extract_limit_def int_of_digits_def split: option.splits)
  have c: "(\<exists>e. extract_limit query = Inl e) =
        (\<exists>ds. re_search_limit (lower query) = Some ds \<and> 4300 < length ds)"
    by (auto simp: extract_limit_def int_of_digits_def int_max_str_digits_def split: option.splits)
  have d: "\<forall>ds. re_search_limit (lower query) = Some ds \<and> length ds \<le> 4300 \<longrightarrow>
          extract_limit query = Inr (Some (digits_value ds)) \<and> 0 \<le> digits_value ds"
    by (auto simp: extract_limit_def int_of_digits_def int_max_str_digits_def
        dest: re_search_limit_nonneg)
  have e: "extract_limit ''show me 5 triggers with high severity'' = Inr (Some 5)"
    by (simp add: extract_simps)
  have f: "extract_severity ''show me 5 triggers with high severity'' = Some [''high'']"
    by (simp add: extract_simps)
  have g: "extract_limit ''list hosts'' = Inr None"
    by (simp add: extract_simps)
  have h: "extract_severity ''list hosts'' = None"
    by (simp add: extract_simps)
  have i: "extract_limit ''Show Me 5 TRIGGERS With High Severity'' = Inr (Some 5)"
    by (simp add: extract_simps)
  have j: "extract_severity ''Show Me 5 TRIGGERS With HIGH Severity'' = Some [''high'']"
    by (simp add: extract_simps)
  have k: "extract_severity ''NOT CLASSIFIED or Disaster'' = Some [''not_classified'']"
    by (simp add: extract_simps)
  have l: "extract_severity ''disaster and warning'' = Some [''warning'']"
    by (simp add: extract_simps)
  have m: "extract_limit ''show 3 hosts and 7 items'' = Inr (Some 3)"
    by (simp add: extract_simps)
  have n: "extract_limit ''room 12b 120Items'' = Inr (Some 120)"
    by (simp add: extract_simps)
  have o: "extract_limit ''5 servers'' = Inr None"
    by (simp add: extract_simps)
  have p: "(re_search_limit (lower query) = Some digits) =
        (\<exists>i<length (lower query).
           limit_match_at (drop i (lower query)) = Some digits
           \<and> (\<forall>j<i. limit_match_at (drop j (lower query)) = None))"
    by (rule re_search_limit_first)
  have q: "(limit_match_at text = Some digits) =
        (digits \<noteq> [] \<and> list_all is_digit digits
         \<and> (\<exists>ws rest. text = digits @ ws @ rest \<and> list_all is_space ws
               \<and> (prefix ''host'' rest \<or> prefix ''trigger'' rest \<or> prefix ''item'' rest)))"
    using limit_match_at_iff [of "text" digits] by (simp add: noun_prefix_def)
  from a b c d e f g h i j k l m n o p q show ?thesis by (simp add: severity_map_def)
qed

theorem extract_parameters_witness:
  "re_search_limit (lower ''Show 12 Hosts'') = Some ''12''
   \<and> extract_limit ''Show 12 Hosts'' = Inr (Some 12)
   \<and> (0::int) \<le> 12"
proof -
  have r: "re_search_limit (lower ''Show 12 Hosts'') = Some ''12''"
    by (simp add: lower_def lower_char_ascii limit_match_at_def is_digit_def is_space_def
        noun_prefix_def)
  have l: "length ''12'' \<le> 4300" by simp
  have v: "digits_value ''12'' = 12" by (simp add: digits_value_def)
  from extract_parameters [of "''Show 12 Hosts''"] r l
  have "extract_limit ''Show 12 Hosts'' = Inr (Some (digits_value ''12''))
      \<and> 0 \<le> digits_value ''12''"
    by blast
  with r v show ?thesis by simp
qed

section \<open>Tool selection\<close>

text \<open>The head of a filtered list is the first element that passes the test.\<close>

lemma filter_head_find:
  "(case filter P xs of [] \<Rightarrow> a | x # rest \<Rightarrow> f x) = (case find P xs of None \<Rightarrow> a | Some x \<Rightarrow> f x)"
  by (induction xs) simp_all

lemma find_as_filter:
  "find P xs = (case filter P xs of [] \<Rightarrow> None | x # rest \<Rightarrow> Some x)"
  by (induction xs) simp_all

lemmas registry_simps = init_assistant_def initialize_zabbix_tools_def match_tools_def
  lower_def lower_char_ascii

text \<open>The matches of some responses on the registry of the source.\<close>

lemma match_best_match:
  "match_tools (init_assistant zabbix_tools model trimmer) ''Get Triggers is the best match'' =
     [\<lparr>name = ''Get Triggers'', func = tool_get_triggers zabbix_tools,
       description = ''Retrieve triggers with optional limit and severity filtering.''\<rparr>]"
  by (simp add: registry_simps)

lemma match_best_match_upper:
  "match_tools (init_assistant zabbix_tools model trimmer) ''GET TRIGGERS IS THE BEST MATCH'' =
     [\<lparr>name = ''Get Triggers'', func = tool_get_triggers zabbix_tools,
       description = ''Retrieve triggers with optional limit and severity filtering.''\<rparr>]"
  by (simp add: registry_simps)

lemma match_hosts_mixed:
  "match_tools (init_assistant zabbix_tools model trimmer) ''GET hosts is the best match'' =
     [\<lparr>name = ''Get Hosts'', func = tool_get_hosts zabbix_tools,
       description = ''Retrieve a list of hosts.''\<rparr>]"
  by (simp add: registry_simps)

lemma match_both_names:
  "map name (match_tools (init_assistant zabbix_tools model trimmer)
     ''get triggers or GET HOSTS'') = [''Get Hosts'', ''Get Triggers'']"
  by (simp add: registry_simps)

lemma match_get_triggers:
  "match_tools (init_assistant zabbix_tools model trimmer) ''Get Triggers'' =
     [\<lparr>name = ''Get Triggers'', func = tool_get_triggers zabbix_tools,
       description = ''Retrieve triggers with optional limit and severity filtering.''\<rparr>]"
  by (simp add: registry_simps)

lemma match_get_hosts:
  "match_tools (init_assistant zabbix_tools model trimmer) ''Get Hosts'' =
     [\<lparr>name = ''Get Hosts'', func = tool_get_hosts zabbix_tools,
       description = ''Retrieve a list of hosts.''\<rparr>]"
  by (simp add: registry_simps)

lemma match_general:
  "match_tools (init_assistant zabbix_tools model trimmer) ''GENERAL'' = []"
  by (simp add: registry_simps)

text \<open>The page of the one host of the sample client, as \<open>get_hosts\<close> renders it.\<close>

lemma get_hosts_one_host:
  "psize \<noteq> 0 \<Longrightarrow> 1 \<le> psize \<Longrightarrow>
   get_hosts (sample_functions (Some one_host_client)) 1 psize True =
     ''Host: web-server-01 (ID: 10001, Status: Enabled)'' @ [CHR 0x0A]
     @ ''  Hostname: web01'' @ [CHR 0x0A] @ ''  Description: Front end''
     @ [CHR 0x0A, CHR 0x0A] @ ''Page 1 of 1 (Total Items: 1)''"
  by (simp add: get_hosts_def call_host_get_def sample_functions_def one_host_client_def
      web_server_host_def paginate_and_format_def paginate_response_def paginated_data_def
      py_slice_def host_formatter_def host_info_def getitem_def get_default_def str_int_1
      div_pos_pos_trivial)

text \<open>
  Claim C3. The classifier's response is lowered and each registered name, lowered, is
  looked for in it as a substring, so the match does not depend on the case of either.
  When at least one name occurs, the first tool in registry order among those is the
  one selected: its bound function is called, with the extracted parameters for Get
  Hosts and Get Triggers and without arguments otherwise, and its text is interpreted.
  When none occurs, the turn takes the generic path. On the registry of the source, the
  response \<open>Get Triggers is the best match\<close>, in this or in upper case, matches Get
  Triggers only, and the function bound to Get Triggers is what the turn calls; a
  response that holds both Get Triggers and Get Hosts is headed by the earlier entry,
  Get Hosts; and with the response \<open>GET hosts is the best match\<close> the turn calls the
  function of Get Hosts with the limit of the query and hands its page to the
  interpretation.
\<close>

theorem first_match_selected:
  assumes "select_tool self trimmed_messages = Inr tool_selection"
  shows "match_tools self tool_selection =
           filter (\<lambda>t. sublist (lower (name t)) (lower tool_selection)) (tools self)
       \<and> agent_attempt self trimmed_messages user_query =
           (case find (\<lambda>t. sublist (lower (name t)) (lower tool_selection)) (tools self) of
              None \<Rightarrow> default_response self trimmed_messages
            | Some t \<Rightarrow>
                (case run_tool self t user_query of
                   Inl e \<Rightarrow> Inl e
                 | Inr tool_response \<Rightarrow>
                     (case llm self (InterpretationPrompt user_query tool_response) of
                        Inl e \<Rightarrow> Inl e
                      | Inr interpreted_response \<Rightarrow> Inr [AIMessage interpreted_response])))
       \<and> run_tool self matched_tool user_query =
           (if name matched_tool = ''Get Hosts''
            then (case extract_limit user_query of
                    Inl e \<Rightarrow> Inl e
                  | Inr limit \<Rightarrow> func matched_tool (LimitArg limit))
            else if name matched_tool = ''Get Triggers''
            then (case extract_limit user_query of
                    Inl e \<Rightarrow> Inl e
                  | Inr limit \<Rightarrow>
                      func matched_tool
                        (LimitSeverityArgs limit (extract_severity user_query)))
            else func matched_tool NoArgs)
       \<and> lower ''Get Triggers is the BEST match'' = ''get triggers is the best match''
       \<and> map name (match_tools (init_assistant zabbix_tools model trimmer)
             ''Get Triggers is the best match'') = [''Get Triggers'']
       \<and> map name (match_tools (init_assistant zabbix_tools model trimmer)
             ''GET TRIGGERS IS THE BEST MATCH'') = [''Get Triggers'']
       \<and> map name (match_tools (init_assistant zabbix_tools model trimmer)
             ''get triggers or GET HOSTS'') = [''Get Hosts'', ''Get Triggers'']
       \<and> match_tools (init_assistant zabbix_tools model trimmer) ''GENERAL'' = []
       \<and> agent_attempt (init_assistant zabbix_tools (echo_llm ''Get Triggers is the best match'')
             trimmer) [HumanMessage ''disaster triggers''] ''disaster triggers'' =
           (case tool_get_triggers zabbix_tools (LimitSeverityArgs None (Some [''disaster''])) of
              Inl e \<Rightarrow> Inl e
            | Inr tool_response \<Rightarrow> Inr [AIMessage tool_response])
       \<and> chatbot_agent (init_assistant (sample_functions (Some one_host_client))
             (echo_llm ''GET hosts is the best match'') keep_all_trimmer)
             [HumanMessage ''List 5 Hosts''] =
           Inr [AIMessage
                 (''Host: web-server-01 (ID: 10001, Status: Enabled)'' @ [CHR 0x0A]
                  @ ''  Hostname: web01'' @ [CHR 0x0A] @ ''  Description: Front end''
                  @ [CHR 0x0A, CHR 0x0A] @ ''Page 1 of 1 (Total Items: 1)'')]"
proof -
  have a: "match_tools self tool_selection =
           filter (\<lambda>t. sublist (lower (name t)) (lower tool_selection)) (tools self)"
    by (simp add: match_tools_def contains_sublist)
  have "agent_attempt self trimmed_messages user_query =
          (case match_tools self tool_selection of
             [] \<Rightarrow> default_response self trimmed_messages
           | matched_tool # others \<Rightarrow> interpret_tool self matched_tool user_query)"
    using assms by (simp add: agent_attempt_def)
  then have "agent_attempt self trimmed_messages user_query =
           (case find (\<lambda>t. sublist (lower (name t)) (lower tool_selection)) (tools self) of
              None \<Rightarrow> default_response self trimmed_messages
            | Some t \<Rightarrow> interpret_tool self t user_query)"
    unfolding a by (simp only: filter_head_find)
  then have b: "agent_attempt self trimmed_messages user_query =
           (case find (\<lambda>t. sublist (lower (name t)) (lower tool_selection)) (tools self) of
              None \<Rightarrow> default_response self trimmed_messages
            | Some t \<Rightarrow>
                (case run_tool self t user_query of
                   Inl e \<Rightarrow> Inl e
                 | Inr tool_response \<Rightarrow>
                     (case llm self (InterpretationPrompt user_query tool_response) of
                        Inl e \<Rightarrow> Inl e
                      | Inr interpreted_response \<Rightarrow> Inr [AIMessage interpreted_response])))"
    by (simp add: interpret_tool_def split: option.splits)
  have c: "run_tool self matched_tool user_query =
           (if name matched_tool = ''Get Hosts''
            then (case extract_limit user_query of
                    Inl e \<Rightarrow> Inl e
                  | Inr limit \<Rightarrow> func matched_tool (LimitArg limit))
            else if name matched_tool = ''Get Triggers''
            then (case extract_limit user_query of
                    Inl e \<Rightarrow> Inl e
                  | Inr limit \<Rightarrow>
                      func matched_tool
                        (LimitSeverityArgs limit (extract_severity user_query)))
            else func matched_tool NoArgs)"
    by (simp add: run_tool_def)
  have d: "lower ''Get Triggers is the BEST match'' = ''get triggers is the best match''"
    by (simp add: lower_def lower_char_ascii)
  have xl: "extract_limit ''disaster triggers'' = Inr None"
    by (simp add: extract_simps)
  have xs: "extract_severity ''disaster triggers'' = Some [''disaster'']"
    by (simp add: extract_simps)
  have st: "select_tool (init_assistant zabbix_tools (echo_llm ''Get Triggers is the best match'')
      trimmer) msgs = Inr ''Get Triggers is the best match''" for msgs
    by (simp add: select_tool_def init_assistant_def echo_llm_def)
  have it: "llm (init_assistant zabbix_tools (echo_llm ''Get Triggers is the best match'')
      trimmer) p = echo_llm ''Get Triggers is the best match'' p" for p
    by (simp add: init_assistant_def)
  have e: "agent_attempt (init_assistant zabbix_tools (echo_llm ''Get Triggers is the best match'')
             trimmer) [HumanMessage ''disaster triggers''] ''disaster triggers'' =
           (case tool_get_triggers zabbix_tools (LimitSeverityArgs None (Some [''disaster''])) of
              Inl e \<Rightarrow> Inl e
            | Inr tool_response \<Rightarrow> Inr [AIMessage tool_response])"
    by (simp add: agent_attempt_def st match_best_match interpret_tool_def run_tool_def xl xs
        it echo_llm_def split: sum.splits)
  let ?h = "init_assistant (sample_functions (Some one_host_client))
             (echo_llm ''GET hosts is the best match'') keep_all_trimmer"
  have t: "trim_conversation_messages ?h [HumanMessage ''List 5 Hosts''] 3000
      = [HumanMessage ''List 5 Hosts'']"
    by (simp add: trim_conversation_messages_def init_assistant_def keep_all_trimmer_def)
  have s: "select_tool ?h [HumanMessage ''List 5 Hosts''] = Inr ''GET hosts is the best match''"
    by (simp add: select_tool_def init_assistant_def echo_llm_def)
  have l5: "extract_limit ''List 5 Hosts'' = Inr (Some 5)"
    by (simp add: extract_simps)
  have i: "llm ?h p = echo_llm ''GET hosts is the best match'' p" for p
    by (simp add: init_assistant_def)
  have r: "agent_attempt ?h [HumanMessage ''List 5 Hosts''] ''List 5 Hosts'' =
      Inr [AIMessage
            (''Host: web-server-01 (ID: 10001, Status: Enabled)'' @ [CHR 0x0A]
             @ ''  Hostname: web01'' @ [CHR 0x0A] @ ''  Description: Front end''
             @ [CHR 0x0A, CHR 0x0A] @ ''Page 1 of 1 (Total Items: 1)'')]"
    by (simp add: agent_attempt_def s match_hosts_mixed interpret_tool_def run_tool_def l5
        tool_get_hosts_def limit_or_50_def get_hosts_one_host i echo_llm_def)
  have f: "chatbot_agent ?h [HumanMessage ''List 5 Hosts''] =
      Inr [AIMessage
            (''Host: web-server-01 (ID: 10001, Status: Enabled)'' @ [CHR 0x0A]
             @ ''  Hostname: web01'' @ [CHR 0x0A] @ ''  Description: Front end''
             @ [CHR 0x0A, CHR 0x0A] @ ''Page 1 of 1 (Total Items: 1)'')]"
    by (simp add: chatbot_agent_def t py_last_def r)
  from a b c d e f show ?thesis
    by (simp add: match_best_match match_best_match_upper match_both_names match_general)
qed

theorem first_match_selected_witness:
  "select_tool (init_assistant (sample_functions (Some one_host_client))
       (echo_llm ''GET hosts is the best match'') keep_all_trimmer)
     [HumanMessage ''List 5 Hosts''] = Inr ''GET hosts is the best match''
   \<and> agent_attempt (init_assistant (sample_functions (Some one_host_client))
       (echo_llm ''GET hosts is the best match'') keep_all_trimmer)
     [HumanMessage ''List 5 Hosts''] ''List 5 Hosts''
     = Inr [AIMessage (get_hosts (sample_functions (Some one_host_client)) 1 5 True)]"
proof -
  let ?z = "sample_functions (Some one_host_client)"
  let ?self = "init_assistant ?z (echo_llm ''GET hosts is the best match'') keep_all_trimmer"
  let ?t = "\<lparr>name = ''Get Hosts'', func = tool_get_hosts ?z,
            description = ''Retrieve a list of hosts.''\<rparr>"
  let ?P = "\<lambda>t. sublist (lower (name t)) (lower ''GET hosts is the best match'')"
  have h: "select_tool ?self [HumanMessage ''List 5 Hosts''] = Inr ''GET hosts is the best match''"
    by (simp add: select_tool_def init_assistant_def echo_llm_def)
  note inst = first_match_selected [OF h, of "''List 5 Hosts''" ?t]
  from inst have "filter ?P (tools ?self) = match_tools ?self ''GET hosts is the best match''"
    by simp
  then have "filter ?P (tools ?self) = [?t]"
    by (simp only: match_hosts_mixed)
  then have f: "find ?P (tools ?self) = Some ?t"
    by (simp add: find_as_filter)
  have l5: "extract_limit ''List 5 Hosts'' = Inr (Some 5)"
    by (simp add: extract_simps)
  from inst l5 have r: "run_tool ?self ?t ''List 5 Hosts'' = Inr (get_hosts ?z 1 5 True)"
    by (simp add: tool_get_hosts_def limit_or_50_def)
  have i: "llm ?self p = echo_llm ''GET hosts is the best match'' p" for p
    by (simp add: init_assistant_def)
  from inst have "agent_attempt ?self [HumanMessage ''List 5 Hosts''] ''List 5 Hosts''
      = (case find ?P (tools ?self) of
           None \<Rightarrow> default_response ?self [HumanMessage ''List 5 Hosts'']
         | Some t \<Rightarrow>
             (case run_tool ?self t ''List 5 Hosts'' of
                Inl e \<Rightarrow> Inl e
              | Inr tool_response \<Rightarrow>
                  (case llm ?self (InterpretationPrompt ''List 5 Hosts'' tool_response) of
                     Inl e \<Rightarrow> Inl e
                   | Inr interpreted_response \<Rightarrow> Inr [AIMessage interpreted_response])))"
    by blast
  with f r h show ?thesis by (simp add: i echo_llm_def)
qed

section \<open>The registry\<close>



section \<open>Failure of the classification call\<close>

text \<open>
  Claim C9, as stated, fails: when the model call of \<open>_select_tool\<close> raises, the turn
  does not take the generic path. The exception is caught by the \<open>except\<close> of
  \<open>chatbot_agent\<close> and the assistant message is the fixed error text, although the
  generic completion would have answered.
\<close>

theorem selection_failure_counterexample:
  "select_tool (init_assistant (sample_functions None)
       (scripted_llm (Inl (External ''rate limit'')) (Inr ''An interpretation.'') (Inr ''Hello.''))
       keep_all_trimmer) [HumanMessage ''hello''] = Inl (External ''rate limit'')
   \<and> default_response (init_assistant (sample_functions None)
       (scripted_llm (Inl (External ''rate limit'')) (Inr ''An interpretation.'') (Inr ''Hello.''))
       keep_all_trimmer) [HumanMessage ''hello''] = Inr [AIMessage ''Hello.'']
   \<and> chatbot_agent (init_assistant (sample_functions None)
       (scripted_llm (Inl (External ''rate limit'')) (Inr ''An interpretation.'') (Inr ''Hello.''))
       keep_all_trimmer) [HumanMessage ''hello'']
     = Inr [AIMessage ''I encountered an unexpected error processing your request.'']"
  by (simp add: chatbot_agent_def trim_conversation_messages_def py_last_def agent_attempt_def
      select_tool_def default_response_def init_assistant_def scripted_llm_def keep_all_trimmer_def
      unexpected_error_text_def)

text \<open>
  Claim C9, amended. When the trimmed window is not empty and the model call used for
  tool classification raises, the turn produces one assistant message with the fixed text
  \<open>I encountered an unexpected error processing your request.\<close> The generic path is
  taken when classification returns a response in which no registered name occurs; its
  output then becomes the assistant message (and the same fixed text when the generic
  completion raises).
\<close>

theorem selection_failure_is_error_message:
  assumes "py_last (trim_conversation_messages self messages 3000) = Inr latest"
  shows "(select_tool self (trim_conversation_messages self messages 3000) = Inl e \<longrightarrow>
            chatbot_agent self messages = Inr [AIMessage unexpected_error_text])
       \<and> (select_tool self (trim_conversation_messages self messages 3000) = Inr tool_selection
            \<and> match_tools self tool_selection = [] \<longrightarrow>
            chatbot_agent self messages =
              (case llm self (DefaultPrompt (trim_conversation_messages self messages 3000)) of
                 Inl e \<Rightarrow> Inr [AIMessage unexpected_error_text]
               | Inr response \<Rightarrow> Inr [AIMessage response]))"
  using assms
  by (auto simp: chatbot_agent_def Let_def agent_attempt_def default_response_def split: sum.splits)

theorem selection_failure_is_error_message_witness:
  "chatbot_agent (init_assistant (sample_functions None)
       (scripted_llm (Inl (External ''rate limit'')) (Inr ''An interpretation.'') (Inr ''Hello.''))
       keep_all_trimmer) [HumanMessage ''hello''] = Inr [AIMessage unexpected_error_text]
   \<and> chatbot_agent (init_assistant (sample_functions None)
       (scripted_llm (Inr ''GENERAL'') (Inr ''An interpretation.'') (Inr ''Hello.''))
       keep_all_trimmer) [HumanMessage ''hello''] = Inr [AIMessage ''Hello.'']"
proof -
  let ?bad = "init_assistant (sample_functions None)
       (scripted_llm (Inl (External ''rate limit'')) (Inr ''An interpretation.'') (Inr ''Hello.''))
       keep_all_trimmer"
  let ?good = "init_assistant (sample_functions None)
       (scripted_llm (Inr ''GENERAL'') (Inr ''An interpretation.'') (Inr ''Hello.''))
       keep_all_trimmer"
  have t1: "trim_conversation_messages ?bad [HumanMessage ''hello''] 3000 = [HumanMessage ''hello'']"
    by (simp add: trim_conversation_messages_def init_assistant_def keep_all_trimmer_def)
  have t2: "trim_conversation_messages ?good [HumanMessage ''hello''] 3000 = [HumanMessage ''hello'']"
    by (simp add: trim_conversation_messages_def init_assistant_def keep_all_trimmer_def)
  have l1: "py_last (trim_conversation_messages ?bad [HumanMessage ''hello''] 3000) = Inr (HumanMessage ''hello'')"
    unfolding t1 by (simp add: py_last_def)
  have l2: "py_last (trim_conversation_messages ?good [HumanMessage ''hello''] 3000) = Inr (HumanMessage ''hello'')"
    unfolding t2 by (simp add: py_last_def)
  have s1: "select_tool ?bad (trim_conversation_messages ?bad [HumanMessage ''hello''] 3000)
      = Inl (External ''rate limit'')"
    by (simp add: select_tool_def init_assistant_def scripted_llm_def)
  have s2: "select_tool ?good (trim_conversation_messages ?good [HumanMessage ''hello''] 3000)
      = Inr ''GENERAL''"
    by (simp add: select_tool_def init_assistant_def scripted_llm_def)
  have d2: "llm ?good (DefaultPrompt (trim_conversation_messages ?good [HumanMessage ''hello''] 3000))
      = Inr ''Hello.''"
    by (simp add: init_assistant_def scripted_llm_def)
  from selection_failure_is_error_message [OF l1, of "External ''rate limit''"] s1
  have a: "chatbot_agent ?bad [HumanMessage ''hello''] = Inr [AIMessage unexpected_error_text]"
    by blast
  from selection_failure_is_error_message [OF l2, of _ "''GENERAL''"] s2 match_general d2
  have b: "chatbot_agent ?good [HumanMessage ''hello''] = Inr [AIMessage ''Hello.'']"
    by simp
  from a b show ?thesis by simp
qed

section \<open>Failure of a capability\<close>

text \<open>
  \<open>get_hosts\<close> turns a failure of the monitoring API into a text, and a turn whose
  trimmed window is not empty ends with one assistant message.
\<close>

lemma get_hosts_error_text:
  "call_host_get zabbix_tools
      ([''hostid'', ''name'', ''status''] @ (if details then [''host'', ''description''] else []))
     = Inl cause
   \<Longrightarrow> get_hosts zabbix_tools page psize details = ''Error retrieving hosts: '' @ str_exn cause"
  by (simp add: get_hosts_def Let_def)

lemma chatbot_agent_one_message:
  assumes "py_last (trim_conversation_messages self messages 3000) = Inr latest"
  shows "\<exists>text. chatbot_agent self messages = Inr [AIMessage text]"
  using assms
  by (auto simp: chatbot_agent_def Let_def agent_attempt_def default_response_def
      interpret_tool_def split: sum.splits list.splits)

text \<open>
  Claim C2, as stated, fails: when the monitoring API raises under Get Hosts, the text
  \<open>Error retrieving hosts: ...\<close> is not the assistant message. It is handed to the
  language model for interpretation, and the assistant message is what the model
  answers, which need not contain \<open>Error retrieving\<close>.
\<close>

theorem capability_failure_counterexample:
  "call_host_get (sample_functions (Some unreachable_client))
       [''hostid'', ''name'', ''status'', ''host'', ''description''] = Inl (External ''connection refused'')
   \<and> run_turn (init_assistant (sample_functions (Some unreachable_client))
         (scripted_llm (Inr ''Get Hosts'') (Inr ''The monitoring server cannot be reached.'')
            (Inr ''Hello.'')) keep_all_trimmer) [] ''list hosts''
       = Inr [HumanMessage ''list hosts'', AIMessage ''The monitoring server cannot be reached.'']
   \<and> \<not> contains ''The monitoring server cannot be reached.'' ''Error retrieving''"
proof -
  let ?z = "sample_functions (Some unreachable_client)"
  let ?m = "scripted_llm (Inr ''Get Hosts'') (Inr ''The monitoring server cannot be reached.'')
            (Inr ''Hello.'')"
  let ?self = "init_assistant ?z ?m keep_all_trimmer"
  have a: "call_host_get ?z [''hostid'', ''name'', ''status'', ''host'', ''description'']
      = Inl (External ''connection refused'')"
    by (simp add: call_host_get_def sample_functions_def unreachable_client_def)
  have t: "trim_conversation_messages ?self [HumanMessage ''list hosts''] 3000 = [HumanMessage ''list hosts'']"
    by (simp add: trim_conversation_messages_def init_assistant_def keep_all_trimmer_def)
  have s: "select_tool ?self [HumanMessage ''list hosts''] = Inr ''Get Hosts''"
    by (simp add: select_tool_def init_assistant_def scripted_llm_def)
  have i: "llm ?self p = ?m p" for p
    by (simp add: init_assistant_def)
  have xl: "extract_limit ''list hosts'' = Inr None"
    by (simp add: extract_simps)
  have r: "agent_attempt ?self [HumanMessage ''list hosts''] ''list hosts''
      = Inr [AIMessage ''The monitoring server cannot be reached.'']"
    by (simp add: agent_attempt_def s match_get_hosts interpret_tool_def run_tool_def xl
        tool_get_hosts_def i scripted_llm_def)
  have b: "run_turn ?self [] ''list hosts''
      = Inr [HumanMessage ''list hosts'', AIMessage ''The monitoring server cannot be reached.'']"
    by (simp add: run_turn_def add_messages_def chatbot_agent_def t py_last_def r)
  have c: "\<not> contains ''The monitoring server cannot be reached.'' ''Error retrieving''"
    by simp
  from a b c show ?thesis by simp
qed

text \<open>
  Claim C2, amended. In a turn whose trimmed window is not empty and in which a
  capability is selected, no exception of the capability leaves the turn, and the turn
  adds exactly one assistant message after the user message: the language model's
  interpretation of the text the capability returned, or the fixed unexpected-error text
  when the capability or the interpretation call raised. For Get Hosts, when the limit
  extraction returns, a failure of the monitoring API is caught inside the capability,
  and the text handed to the interpretation is \<open>Error retrieving hosts: \<close> followed by
  the cause. When the limit extraction raises (a run of more than 4300 digits before
  the noun), the capability is not called and \<open>_run_tool\<close> raises, for Get Hosts and for
  Get Triggers, so the message is the fixed text.
\<close>

theorem capability_failure_is_interpreted:
  assumes "py_last (trim_conversation_messages self (add_messages thread [HumanMessage user_input]) 3000)
             = Inr latest"
      and "select_tool self (trim_conversation_messages self (add_messages thread [HumanMessage user_input]) 3000)
             = Inr tool_selection"
      and "match_tools self tool_selection = matched_tool # others"
  shows "(\<exists>text. chatbot_agent self (add_messages thread [HumanMessage user_input]) = Inr [AIMessage text]
            \<and> run_turn self thread user_input = Inr (thread @ [HumanMessage user_input, AIMessage text])
            \<and> text =
                (case run_tool self matched_tool (message_content latest) of
                   Inl e \<Rightarrow> unexpected_error_text
                 | Inr tool_response \<Rightarrow>
                     (case llm self (InterpretationPrompt (message_content latest) tool_response) of
                        Inl e \<Rightarrow> unexpected_error_text
                      | Inr interpreted_response \<Rightarrow> interpreted_response)))
       \<and> (name matched_tool = ''Get Hosts'' \<and> func matched_tool = tool_get_hosts zabbix_tools
            \<and> extract_limit (message_content latest) = Inr limit
            \<and> call_host_get zabbix_tools [''hostid'', ''name'', ''status'', ''host'', ''description'']
                = Inl cause
          \<longrightarrow> run_tool self matched_tool (message_content latest)
                = Inr (''Error retrieving hosts: '' @ str_exn cause))
       \<and> ((name matched_tool = ''Get Hosts'' \<or> name matched_tool = ''Get Triggers'')
            \<and> extract_limit (message_content latest) = Inl raised
          \<longrightarrow> run_tool self matched_tool (message_content latest) = Inl raised
              \<and> chatbot_agent self (add_messages thread [HumanMessage user_input])
                  = Inr [AIMessage unexpected_error_text])"
proof -
  let ?state = "add_messages thread [HumanMessage user_input]"
  let ?text = "case run_tool self matched_tool (message_content latest) of
                   Inl e \<Rightarrow> unexpected_error_text
                 | Inr tool_response \<Rightarrow>
                     (case llm self (InterpretationPrompt (message_content latest) tool_response) of
                        Inl e \<Rightarrow> unexpected_error_text
                      | Inr interpreted_response \<Rightarrow> interpreted_response)"
  have a: "chatbot_agent self ?state = Inr [AIMessage ?text]"
    using assms
    by (simp add: chatbot_agent_def Let_def agent_attempt_def interpret_tool_def split: sum.splits)
  then have b: "run_turn self thread user_input = Inr (thread @ [HumanMessage user_input, AIMessage ?text])"
    by (simp add: run_turn_def Let_def add_messages_def)
  have c: "name matched_tool = ''Get Hosts'' \<and> func matched_tool = tool_get_hosts zabbix_tools
            \<and> extract_limit (message_content latest) = Inr limit
            \<and> call_host_get zabbix_tools [''hostid'', ''name'', ''status'', ''host'', ''description'']
                = Inl cause
          \<longrightarrow> run_tool self matched_tool (message_content latest)
                = Inr (''Error retrieving hosts: '' @ str_exn cause)"
    using get_hosts_error_text [of zabbix_tools True cause]
    by (simp add: run_tool_def tool_get_hosts_def)
  have d1: "(name matched_tool = ''Get Hosts'' \<or> name matched_tool = ''Get Triggers'')
            \<and> extract_limit (message_content latest) = Inl raised
          \<longrightarrow> run_tool self matched_tool (message_content latest) = Inl raised"
    by (auto simp: run_tool_def)
  have d: "(name matched_tool = ''Get Hosts'' \<or> name matched_tool = ''Get Triggers'')
            \<and> extract_limit (message_content latest) = Inl raised
          \<longrightarrow> run_tool self matched_tool (message_content latest) = Inl raised
              \<and> chatbot_agent self ?state = Inr [AIMessage unexpected_error_text]"
  proof (intro impI)
    assume h: "(name matched_tool = ''Get Hosts'' \<or> name matched_tool = ''Get Triggers'')
            \<and> extract_limit (message_content latest) = Inl raised"
    with d1 have r: "run_tool self matched_tool (message_content latest) = Inl raised" by blast
    with a show "run_tool self matched_tool (message_content latest) = Inl raised
              \<and> chatbot_agent self ?state = Inr [AIMessage unexpected_error_text]"
      by simp
  qed
  from a b c d show ?thesis by blast
qed

theorem capability_failure_is_interpreted_witness:
  "run_turn (init_assistant (sample_functions (Some unreachable_client))
       (scripted_llm (Inr ''Get Hosts'') (Inr ''The monitoring server cannot be reached.'')
          (Inr ''Hello.'')) keep_all_trimmer) [] ''list hosts''
     = Inr [HumanMessage ''list hosts'', AIMessage ''The monitoring server cannot be reached.'']
   \<and> run_tool (init_assistant (sample_functions (Some unreachable_client))
       (scripted_llm (Inr ''Get Hosts'') (Inr ''The monitoring server cannot be reached.'')
          (Inr ''Hello.'')) keep_all_trimmer)
       \<lparr>name = ''Get Hosts'', func = tool_get_hosts (sample_functions (Some unreachable_client)),
          description = ''Retrieve a list of hosts.''\<rparr> ''list hosts''
     = Inr ''Error retrieving hosts: connection refused''
   \<and> run_turn (init_assistant (sample_functions (Some unreachable_client))
       (echo_llm ''Get Hosts'') keep_all_trimmer) [] ''list hosts''
     = Inr [HumanMessage ''list hosts'', AIMessage ''Error retrieving hosts: connection refused'']
   \<and> chatbot_agent (init_assistant (sample_functions (Some unreachable_client))
       (echo_llm ''Get Hosts'') keep_all_trimmer)
       (add_messages [] [HumanMessage (replicate 4301 CHR ''1'' @ '' hosts'')])
     = Inr [AIMessage unexpected_error_text]"
proof -
  let ?z = "sample_functions (Some unreachable_client)"
  let ?m = "scripted_llm (Inr ''Get Hosts'') (Inr ''The monitoring server cannot be reached.'')
            (Inr ''Hello.'')"
  let ?self = "init_assistant ?z ?m keep_all_trimmer"
  let ?echo = "init_assistant ?z (echo_llm ''Get Hosts'') keep_all_trimmer"
  let ?t = "\<lparr>name = ''Get Hosts'', func = tool_get_hosts ?z,
              description = ''Retrieve a list of hosts.''\<rparr>"
  let ?long = "replicate 4301 CHR ''1'' @ '' hosts''"
  have t: "trim_conversation_messages (init_assistant ?z model keep_all_trimmer)
        (add_messages [] [HumanMessage q]) 3000 = [HumanMessage q]" for model q
    by (simp add: trim_conversation_messages_def init_assistant_def keep_all_trimmer_def
        add_messages_def)
  have h1: "py_last (trim_conversation_messages (init_assistant ?z model keep_all_trimmer)
        (add_messages [] [HumanMessage q]) 3000) = Inr (HumanMessage q)" for model q
    unfolding t by (simp add: py_last_def)
  have h2: "select_tool ?self
        (trim_conversation_messages ?self (add_messages [] [HumanMessage ''list hosts'']) 3000)
      = Inr ''Get Hosts''"
    by (simp add: select_tool_def init_assistant_def scripted_llm_def)
  have h2e: "select_tool ?echo
        (trim_conversation_messages ?echo (add_messages [] [HumanMessage q]) 3000)
      = Inr ''Get Hosts''" for q
    by (simp add: select_tool_def init_assistant_def echo_llm_def)
  have h3: "match_tools (init_assistant ?z model keep_all_trimmer) ''Get Hosts'' = ?t # []"
    for model
    by (rule match_get_hosts)
  have a: "call_host_get ?z [''hostid'', ''name'', ''status'', ''host'', ''description'']
      = Inl (External ''connection refused'')"
    by (simp add: call_host_get_def sample_functions_def unreachable_client_def)
  have i: "llm (init_assistant ?z model keep_all_trimmer) p = model p" for model p
    by (simp add: init_assistant_def)
  have xl: "extract_limit ''list hosts'' = Inr None"
    by (simp add: extract_simps)
  from capability_failure_is_interpreted
         [OF h1 h2 h3, where zabbix_tools = ?z and cause = "External ''connection refused''"
            and limit = None]
       a xl
  have p1: "run_turn ?self [] ''list hosts''
      = Inr [HumanMessage ''list hosts'', AIMessage ''The monitoring server cannot be reached.'']
    \<and> run_tool ?self ?t ''list hosts'' = Inr ''Error retrieving hosts: connection refused''"
    by (simp add: i scripted_llm_def)
  have re: "run_tool ?echo ?t ''list hosts'' = Inr ''Error retrieving hosts: connection refused''"
    using p1 by (simp add: run_tool_def)
  from capability_failure_is_interpreted
         [OF h1 h2e h3, where zabbix_tools = ?z and cause = "External ''connection refused''"
            and limit = None and user_input = "''list hosts''"]
       re
  have p2: "run_turn ?echo [] ''list hosts''
      = Inr [HumanMessage ''list hosts'', AIMessage ''Error retrieving hosts: connection refused'']"
    by (simp add: i echo_llm_def)
  from capability_failure_is_interpreted
         [OF h1 h2e h3, where user_input = ?long and raised = "ValueError
       (''Exceeds the limit (4300 digits) for integer string conversion: value has 4301''
        @ '' digits; use sys.set_int_max_str_digits() to increase the limit'')"]
       extract_limit_long_run
  have p3: "chatbot_agent ?echo (add_messages [] [HumanMessage ?long])
      = Inr [AIMessage unexpected_error_text]"
    by simp
  from p1 p2 p3 show ?thesis by simp
qed

section \<open>The turn for a query about triggers\<close>

text \<open>
  Claim C1. On the query \<open>disaster triggers\<close> the severity extractor yields
  \<open>[disaster]\<close>, and Get Triggers is invoked. The wrapper of the registry calls the
  method with the keyword \<open>limit\<close>, which is not one of its parameters, so the call
  raises \<open>TypeError\<close> for every argument, before the body of the method is entered:
  the turn ends with the fixed unexpected-error message and no page is returned. Called
  with the parameters it has, the method returns the page with the footer
  \<open>Page 1 of 1 (Total Items: 1)\<close> on the same data.
\<close>

theorem get_triggers_turn_fails:
  "extract_limit ''disaster triggers'' = Inr None
   \<and> extract_severity ''disaster triggers'' = Some [''disaster'']
   \<and> tool_get_triggers zabbix_tools args =
       Inl (TypeError (''ZabbixToolFunctions.get_triggers() got an unexpected keyword argument ''
              @ quoted ''limit''))
   \<and> run_turn (init_assistant (sample_functions (Some one_trigger_client))
         (scripted_llm (Inr ''Get Triggers'') (Inr ''One disaster trigger is active.'')
            (Inr ''Hello.'')) keep_all_trimmer) [] ''disaster triggers''
       = Inr [HumanMessage ''disaster triggers'',
              AIMessage ''I encountered an unexpected error processing your request.'']
   \<and> get_triggers (sample_functions (Some one_trigger_client)) 1 50 (Some [''disaster''])
       = join [CHR 0x0A]
           [''Trigger: Memory Leak Detected'', ''  ID: 20002'', ''  Priority: Disaster'',
            ''  Status: Enabled'', ''  Current State: Problem'']
         @ [CHR 0x0A, CHR 0x0A] @ ''Page 1 of 1 (Total Items: 1)''"
proof -
  let ?z = "sample_functions (Some one_trigger_client)"
  let ?m = "scripted_llm (Inr ''Get Triggers'') (Inr ''One disaster trigger is active.'')
            (Inr ''Hello.'')"
  let ?self = "init_assistant ?z ?m keep_all_trimmer"
  have a: "extract_limit ''disaster triggers'' = Inr None"
    by (simp add: extract_simps)
  have b: "extract_severity ''disaster triggers'' = Some [''disaster'']"
    by (simp add: extract_severity_def severity_map_def lower_def lower_char_ascii)
  have c: "tool_get_triggers zabbix_tools args =
       Inl (TypeError (''ZabbixToolFunctions.get_triggers() got an unexpected keyword argument ''
              @ quoted ''limit''))" for zabbix_tools args
    by (simp add: tool_get_triggers_def bind_keywords_def get_triggers_parameters_def)
  have t: "trim_conversation_messages ?self [HumanMessage ''disaster triggers''] 3000
      = [HumanMessage ''disaster triggers'']"
    by (simp add: trim_conversation_messages_def init_assistant_def keep_all_trimmer_def)
  have s: "select_tool ?self [HumanMessage ''disaster triggers''] = Inr ''Get Triggers''"
    by (simp add: select_tool_def init_assistant_def scripted_llm_def)
  have r: "agent_attempt ?self [HumanMessage ''disaster triggers''] ''disaster triggers''
      = Inl (TypeError (''ZabbixToolFunctions.get_triggers() got an unexpected keyword argument ''
              @ quoted ''limit''))"
    by (simp add: agent_attempt_def s match_get_triggers interpret_tool_def run_tool_def a c)
  have d: "run_turn ?self [] ''disaster triggers''
       = Inr [HumanMessage ''disaster triggers'',
              AIMessage ''I encountered an unexpected error processing your request.'']"
    by (simp add: run_turn_def add_messages_def chatbot_agent_def t py_last_def r
        unexpected_error_text_def)
  have p1: "(51::int) div 50 = 1" by simp
  have e: "get_triggers ?z 1 50 (Some [''disaster''])
       = join [CHR 0x0A]
           [''Trigger: Memory Leak Detected'', ''  ID: 20002'', ''  Priority: Disaster'',
            ''  Status: Enabled'', ''  Current State: Problem'']
         @ [CHR 0x0A, CHR 0x0A] @ ''Page 1 of 1 (Total Items: 1)''"
    by (simp add: get_triggers_def call_trigger_get_def sample_functions_def one_trigger_client_def
        disaster_trigger_def paginate_and_format_def paginate_response_def paginated_data_def
        py_slice_def trigger_formatter_def trigger_info_def getitem_def get_default_def
        int_of_digits_def digits_value_def int_max_str_digits_def priority_name_def str_int_1)
  from a b c d e show ?thesis by simp
qed

end
